theory Spec2Isabelle
  imports
    Complex_Main
    "HOL-Library.Word"
    "HOL-Library.Sublist"
    "HOL-Library.Char_ord"
    "HOL-Library.List_Lexorder"
    "HOL-Library.Product_Lexorder"
begin

section \<open>Python values, strings and exceptions\<close>

text \<open>
  The three scripts \<^verbatim>\<open>channels.py\<close>, \<^verbatim>\<open>helium.py\<close> and \<^verbatim>\<open>keywords.py\<close> are glue over
  pandas and matplotlib. The embedding keeps the control flow of every function of the
  scripts (validation order, early returns, the position of the \<^verbatim>\<open>try\<close> block, the order of
  the file writes) and models the library calls they make on explicit data: a data frame
  is a list of named, typed columns, an exception is a value, the file system is a record
  that every run takes and returns.

  A string is a list of characters read as code points below 256.
\<close>

datatype exn =
    TypeError string
  | ValueError string
  | KeyError string
  | AttributeError string
  | LibraryError string

text \<open>\<^verbatim>\<open>str(e)\<close>: the message; a \<^verbatim>\<open>KeyError\<close> prints the repr of its key.\<close>

fun exn_str :: "exn \<Rightarrow> string" where
  "exn_str (TypeError m) = m"
| "exn_str (ValueError m) = m"
| "exn_str (KeyError k) = [CHR 0x27] @ k @ [CHR 0x27]"
| "exn_str (AttributeError m) = m"
| "exn_str (LibraryError m) = m"

text \<open>Sequencing of computations that may raise: \<open>Inl\<close> is the exception.\<close>

definition bind_exn :: "exn + 'a \<Rightarrow> ('a \<Rightarrow> exn + 'b) \<Rightarrow> exn + 'b" where
  "bind_exn m f = (case m of Inl e \<Rightarrow> Inl e | Inr x \<Rightarrow> f x)"

subsection \<open>Strings\<close>

text \<open>\<^verbatim>\<open>str.isspace\<close> on the code points below 256.\<close>

definition is_space :: "char \<Rightarrow> bool" where
  "is_space c = (let n = (of_char c :: nat) in
     (9 \<le> n \<and> n \<le> 13) \<or> (28 \<le> n \<and> n \<le> 32) \<or> n = 133 \<or> n = 160)"

definition py_strip :: "string \<Rightarrow> string" where
  "py_strip s = rev (dropWhile is_space (rev (dropWhile is_space s)))"

text \<open>\<^verbatim>\<open>str.lower\<close> on the code points below 256: A-Z and the Latin-1 capitals.\<close>

definition is_upper :: "char \<Rightarrow> bool" where
  "is_upper c = (let n = (of_char c :: nat) in
     (65 \<le> n \<and> n \<le> 90) \<or> (192 \<le> n \<and> n \<le> 222 \<and> n \<noteq> 215))"

definition lower_char :: "char \<Rightarrow> char" where
  "lower_char c = (if is_upper c then char_of ((of_char c :: nat) + 32) else c)"

definition py_lower :: "string \<Rightarrow> string" where
  "py_lower s = map lower_char s"

text \<open>\<^verbatim>\<open>s.split(c)\<close> for a one-character separator: never the empty list.\<close>

fun py_split :: "char \<Rightarrow> string \<Rightarrow> string list" where
  "py_split c [] = [[]]"
| "py_split c (x # xs) =
     (if x = c then [] # py_split c xs
      else (case py_split c xs of
              [] \<Rightarrow> [[x]]
            | w # ws \<Rightarrow> (x # w) # ws))"

text \<open>\<^verbatim>\<open>sep.join(xs)\<close> on strings.\<close>

fun join_strs :: "string \<Rightarrow> string list \<Rightarrow> string" where
  "join_strs sep [] = []"
| "join_strs sep [x] = x"
| "join_strs sep (x # y # ys) = x @ sep @ join_strs sep (y # ys)"

text \<open>\<^verbatim>\<open>str(n)\<close> for a natural number and for an integer.\<close>

definition digit_char :: "nat \<Rightarrow> char" where
  "digit_char d = char_of (48 + d)"

fun show_nat :: "nat \<Rightarrow> string" where
  "show_nat n = (if n < 10 then [digit_char n] else show_nat (n div 10) @ [digit_char (n mod 10)])"

declare show_nat.simps [simp del]

definition show_int :: "int \<Rightarrow> string" where
  "show_int i = (if i < 0 then CHR ''-'' # show_nat (nat (- i)) else show_nat (nat i))"

subsection \<open>Dynamically typed values of a configuration\<close>

text \<open>
  \<^verbatim>\<open>config\<close> is an \<^verbatim>\<open>Optional[Dict]\<close> with string keys; the values the model covers are
  \<^verbatim>\<open>None\<close>, integers, strings, lists and dictionaries with string keys.
\<close>

datatype pyval =
    PNone
  | PInt int
  | PStr string
  | PList "pyval list"
  | PDict "(string \<times> pyval) list"

type_synonym config = "(string \<times> pyval) list"

text \<open>\<^verbatim>\<open>config.get(key, default)\<close>; \<^verbatim>\<open>config = None\<close> is replaced by the empty dictionary.\<close>

definition cfg_get :: "config option \<Rightarrow> string \<Rightarrow> pyval \<Rightarrow> pyval" where
  "cfg_get config k d =
     (case config of
        None \<Rightarrow> d
      | Some kvs \<Rightarrow> (case map_of kvs k of None \<Rightarrow> d | Some v \<Rightarrow> v))"

fun hashable :: "pyval \<Rightarrow> bool" where
  "hashable (PList _) = False"
| "hashable (PDict _) = False"
| "hashable _ = True"

text \<open>
  \<^verbatim>\<open>set(v)\<close>: the elements of an iterable, in the order they are inserted; a value that is
  not iterable, or an element that is not hashable, raises \<^verbatim>\<open>TypeError\<close>.
\<close>

fun type_name :: "pyval \<Rightarrow> string" where
  "type_name PNone = ''NoneType''"
| "type_name (PInt _) = ''int''"
| "type_name (PStr _) = ''str''"
| "type_name (PList _) = ''list''"
| "type_name (PDict _) = ''dict''"

fun py_set :: "pyval \<Rightarrow> exn + pyval list" where
  "py_set PNone = Inl (TypeError '''NoneType' object is not iterable'')"
| "py_set (PInt _) = Inl (TypeError '''int' object is not iterable'')"
| "py_set (PStr s) = Inr (map (\<lambda>c. PStr [c]) s)"
| "py_set (PList xs) =
     (case filter (\<lambda>x. \<not> hashable x) xs of
        [] \<Rightarrow> Inr xs
      | x # _ \<Rightarrow> Inl (TypeError (''unhashable type: '' @ [CHR 0x27] @ type_name x @ [CHR 0x27])))"
| "py_set (PDict kvs) = Inr (map (\<lambda>kv. PStr (fst kv)) kvs)"

text \<open>
  The iteration order of a set of strings follows the strings' hashes, which CPython salts
  per process. The model takes the order from a key function \<open>h\<close> of the run: a set built
  from \<open>xs\<close> is iterated as its distinct elements sorted by \<open>h\<close>. Every order of the
  elements is the order of some \<open>h\<close>.
\<close>

definition set_iter :: "(pyval \<Rightarrow> nat) \<Rightarrow> pyval list \<Rightarrow> pyval list" where
  "set_iter h xs = sort_key h (remdups xs)"

fun is_str :: "pyval \<Rightarrow> bool" where
  "is_str (PStr _) = True"
| "is_str _ = False"

fun str_of :: "pyval \<Rightarrow> string" where
  "str_of (PStr s) = s"
| "str_of _ = []"

text \<open>
  \<^verbatim>\<open>', '.join(vs)\<close> on values: \<^verbatim>\<open>TypeError\<close> at the first element that is not a string.
\<close>

definition py_join :: "string \<Rightarrow> pyval list \<Rightarrow> exn + string" where
  "py_join sep vs =
     (if list_all is_str vs then Inr (join_strs sep (map str_of vs))
      else Inl (TypeError ''sequence item: expected str instance''))"

section \<open>Data frames\<close>

text \<open>
  A float64 cell is NaN, an infinity, or a finite value given by the rational it denotes
  (no arithmetic of the scripts below depends on rounding: the channel script only tests,
  replaces and truncates floats). An int64 cell is a 64-bit word read as two's complement.
  An object cell is a string or missing. \<^verbatim>\<open>read_csv\<close> gives every column one of these three
  types.
\<close>

datatype flt = NaN | PosInf | NegInf | Fin rat

type_synonym int64 = "64 word"

datatype column =
    I64 "int64 list"
  | F64 "flt list"
  | Obj "string option list"

type_synonym frame = "(string \<times> column) list"

definition columns :: "frame \<Rightarrow> string list" where
  "columns df = map fst df"

fun col_len :: "column \<Rightarrow> nat" where
  "col_len (I64 xs) = length xs"
| "col_len (F64 xs) = length xs"
| "col_len (Obj xs) = length xs"

definition nrows :: "frame \<Rightarrow> nat" where
  "nrows df = (case df of [] \<Rightarrow> 0 | (n, c) # _ \<Rightarrow> col_len c)"

text \<open>What \<^verbatim>\<open>read_csv\<close> returns: distinct column labels, columns of one length.\<close>

definition wf_frame :: "frame \<Rightarrow> bool" where
  "wf_frame df = (distinct (columns df) \<and> list_all (\<lambda>nc. col_len (snd nc) = nrows df) df)"

text \<open>\<^verbatim>\<open>df[col]\<close> for one label: \<^verbatim>\<open>KeyError\<close> when the frame has no such column.\<close>

definition get_col :: "frame \<Rightarrow> string \<Rightarrow> exn + column" where
  "get_col df c = (case map_of df c of None \<Rightarrow> Inl (KeyError c) | Some col \<Rightarrow> Inr col)"

text \<open>\<^verbatim>\<open>df[col] = values\<close>: an existing column keeps its place, a new one is appended.\<close>

fun set_col :: "frame \<Rightarrow> string \<Rightarrow> column \<Rightarrow> frame" where
  "set_col [] c v = [(c, v)]"
| "set_col ((n, x) # df) c v = (if n = c then (n, v) # df else (n, x) # set_col df c v)"

definition is_numeric_dtype :: "column \<Rightarrow> bool" where
  "is_numeric_dtype col = (case col of I64 _ \<Rightarrow> True | F64 _ \<Rightarrow> True | Obj _ \<Rightarrow> False)"

text \<open>Boolean indexing: the rows whose mask entry is true.\<close>

definition keep :: "bool list \<Rightarrow> 'a list \<Rightarrow> 'a list" where
  "keep m xs = map snd (filter fst (zip m xs))"

fun keep_col :: "bool list \<Rightarrow> column \<Rightarrow> column" where
  "keep_col m (I64 xs) = I64 (keep m xs)"
| "keep_col m (F64 xs) = F64 (keep m xs)"
| "keep_col m (Obj xs) = Obj (keep m xs)"

definition keep_rows :: "bool list \<Rightarrow> frame \<Rightarrow> frame" where
  "keep_rows m df = map (\<lambda>nc. (fst nc, keep_col m (snd nc))) df"

text \<open>\<^verbatim>\<open>Series.str.strip().str.lower()\<close>: the accessor exists on object columns only.\<close>

definition str_strip_lower :: "column \<Rightarrow> exn + column" where
  "str_strip_lower col =
     (case col of
        Obj xs \<Rightarrow> Inr (Obj (map (map_option (\<lambda>s. py_lower (py_strip s))) xs))
      | _ \<Rightarrow> Inl (AttributeError ''Can only use .str accessor with string values''))"

text \<open>
  \<^verbatim>\<open>pd.to_numeric(col, errors='coerce')\<close>: a numeric column is returned as it is; the
  strings of an object column are parsed by the library (the parameter \<open>parse\<close>), and what
  does not parse, or is missing, becomes NaN.
\<close>

definition to_numeric_coerce :: "(string \<Rightarrow> flt option) \<Rightarrow> column \<Rightarrow> column" where
  "to_numeric_coerce parse col =
     (case col of
        Obj xs \<Rightarrow> F64 (map (\<lambda>x. case x of None \<Rightarrow> NaN
                                 | Some s \<Rightarrow> (case parse s of None \<Rightarrow> NaN | Some v \<Rightarrow> v)) xs)
      | _ \<Rightarrow> col)"

text \<open>\<^verbatim>\<open>.fillna(0)\<close> on a numeric column.\<close>

definition fillna0 :: "column \<Rightarrow> column" where
  "fillna0 col =
     (case col of
        F64 xs \<Rightarrow> F64 (map (\<lambda>x. if x = NaN then Fin 0 else x) xs)
      | _ \<Rightarrow> col)"

text \<open>
  \<^verbatim>\<open>.astype('int64')\<close>: a float is truncated towards zero; NaN and the infinities raise.
  A finite float outside the int64 range is cast by the hardware to the least int64.
\<close>

definition trunc_rat :: "rat \<Rightarrow> int" where
  "trunc_rat r = (if 0 \<le> r then \<lfloor>r\<rfloor> else - \<lfloor>- r\<rfloor>)"

definition float_to_int64 :: "rat \<Rightarrow> int64" where
  "float_to_int64 r =
     (let i = trunc_rat r in
      if - (2 ^ 63) \<le> i \<and> i < 2 ^ 63 then word_of_int i else word_of_int (- (2 ^ 63)))"

fun finite_flt :: "flt \<Rightarrow> bool" where
  "finite_flt (Fin _) = True"
| "finite_flt _ = False"

fun flt_to_int64 :: "flt \<Rightarrow> int64" where
  "flt_to_int64 (Fin r) = float_to_int64 r"
| "flt_to_int64 _ = 0"

definition astype_int64 :: "column \<Rightarrow> exn + column" where
  "astype_int64 col =
     (case col of
        I64 xs \<Rightarrow> Inr (I64 xs)
      | F64 xs \<Rightarrow>
          (if list_all finite_flt xs then Inr (I64 (map flt_to_int64 xs))
           else Inl (ValueError ''Cannot convert non-finite values (NA or inf) to integer''))
      | Obj xs \<Rightarrow> Inl (ValueError ''invalid literal for int()''))"

text \<open>\<^verbatim>\<open>isna\<close>, \<^verbatim>\<open>col != s\<close> and \<^verbatim>\<open>duplicated(keep='first')\<close> as row masks.\<close>

definition notna_mask :: "column \<Rightarrow> bool list" where
  "notna_mask col =
     (case col of
        I64 xs \<Rightarrow> map (\<lambda>_. True) xs
      | F64 xs \<Rightarrow> map (\<lambda>x. x \<noteq> NaN) xs
      | Obj xs \<Rightarrow> map (\<lambda>x. x \<noteq> None) xs)"

definition ne_str_mask :: "string \<Rightarrow> column \<Rightarrow> bool list" where
  "ne_str_mask s col =
     (case col of
        I64 xs \<Rightarrow> map (\<lambda>_. True) xs
      | F64 xs \<Rightarrow> map (\<lambda>_. True) xs
      | Obj xs \<Rightarrow> map (\<lambda>x. x \<noteq> Some s) xs)"

fun first_mask :: "'a list \<Rightarrow> 'a list \<Rightarrow> bool list" where
  "first_mask seen [] = []"
| "first_mask seen (x # xs) = (x \<notin> set seen) # first_mask (x # seen) xs"

definition first_occurrence_mask :: "column \<Rightarrow> bool list" where
  "first_occurrence_mask col =
     (case col of
        I64 xs \<Rightarrow> first_mask [] xs
      | F64 xs \<Rightarrow> first_mask [] xs
      | Obj xs \<Rightarrow> first_mask [] xs)"

section \<open>Results, files and the library calls of a run\<close>

text \<open>
  A generic cell, for dictionary keys of the summaries and for tables of mixed content.
  A file holds a chart (known by its title) or what \<^verbatim>\<open>to_csv\<close> wrote: a frame, or a header
  and rows of cells.
\<close>

datatype cell = CInt int | CFlt flt | CStr string | CNull

text \<open>The cells of a column; a float NaN is a missing cell.\<close>

fun col_cells :: "column \<Rightarrow> cell list" where
  "col_cells (I64 ws) = map (\<lambda>w. CInt (sint w)) ws"
| "col_cells (F64 xs) = map (\<lambda>x. if x = NaN then CNull else CFlt x) xs"
| "col_cells (Obj xs) = map (\<lambda>x. case x of None \<Rightarrow> CNull | Some s \<Rightarrow> CStr s) xs"

datatype content = Chart string | Csv frame | CsvTable "string list" "cell list list"

record fs =
  dirs :: "string list"
  files :: "(string \<times> content) list"

record artifact =
  a_name :: string
  a_type :: string
  a_path :: string

text \<open>The dictionary every \<^verbatim>\<open>run_analysis\<close> returns; \<open>None\<close> is the empty summary.\<close>

record 's results =
  success :: bool
  errors :: "string list"
  artifacts :: "artifact list"
  summary :: "'s option"

definition init_results :: "'s results" where
  "init_results = \<lparr>success = False, errors = [], artifacts = [], summary = None\<rparr>"

text \<open>
  The library calls whose outcome the scripts do not decide are parameters of a run:
  what \<^verbatim>\<open>read_csv\<close> returns for a path; the key that orders the iteration of the run's
  sets; how \<^verbatim>\<open>to_numeric\<close> parses a string; whether creating the directory, plotting or
  writing raises; how \<^verbatim>\<open>to_datetime\<close> reads one non-missing cell (\<open>None\<close>: it cannot);
  the sum and the mean the library computes over cells that are not all int64 (floating
  point and object arithmetic); the sum of floats in a group; whether a regular expression
  compiles and whether it is found, ignoring case, in a string; and \<^verbatim>\<open>pd.Period(v, 'M')\<close> as
  the number of the month (\<open>None\<close>: NaT).
\<close>

datatype io_op = Makedirs string | Plot string | Savefig string | ToCsv string

text \<open>A timestamp: year, month, day and the nanoseconds of the day; ordered as a tuple.\<close>

type_synonym timestamp = "int \<times> nat \<times> nat \<times> nat"

record env =
  read_csv :: "string \<Rightarrow> exn + frame"
  set_hash :: "pyval \<Rightarrow> nat"
  parse_num :: "string \<Rightarrow> flt option"
  io_error :: "io_op \<Rightarrow> exn option"
  parse_datetime :: "cell \<Rightarrow> timestamp option"
  lib_sum :: "cell list \<Rightarrow> exn + cell"
  lib_mean :: "cell list \<Rightarrow> flt"
  float_sum :: "flt list \<Rightarrow> flt"
  regex_error :: "string \<Rightarrow> exn option"
  regex_search :: "string \<Rightarrow> string \<Rightarrow> bool"
  parse_period :: "pyval \<Rightarrow> exn + int option"

text \<open>\<^verbatim>\<open>os.path.join(dir, name)\<close> for a relative \<open>name\<close>.\<close>

definition path_join :: "string \<Rightarrow> string \<Rightarrow> string" where
  "path_join d n = (if d = [] then n else if last d = CHR ''/'' then d @ n else d @ ''/'' @ n)"

fun assoc_set :: "('k \<times> 'v) list \<Rightarrow> 'k \<Rightarrow> 'v \<Rightarrow> ('k \<times> 'v) list" where
  "assoc_set [] k v = [(k, v)]"
| "assoc_set ((k', v') # kvs) k v =
     (if k' = k then (k, v) # kvs else (k', v') # assoc_set kvs k v)"

definition write_file :: "string \<Rightarrow> content \<Rightarrow> fs \<Rightarrow> fs" where
  "write_file path c f = f\<lparr>files := assoc_set (files f) path c\<rparr>"

text \<open>The state a run threads through its \<^verbatim>\<open>try\<close> block: the results so far and the files.\<close>

record 's run_state =
  res :: "'s results"
  fsys :: fs

text \<open>
  Statements in sequence: the first that raises stops the block, and what the earlier ones
  wrote stays.
\<close>

fun run_steps :: "('st \<Rightarrow> exn + 'st) list \<Rightarrow> 'st \<Rightarrow> exn option \<times> 'st" where
  "run_steps [] st = (None, st)"
| "run_steps (f # fs) st =
     (case f st of Inl e \<Rightarrow> (Some e, st) | Inr st' \<Rightarrow> run_steps fs st')"

text \<open>\<^verbatim>\<open>os.makedirs(output_dir, exist_ok=True)\<close>.\<close>

definition makedirs :: "env \<Rightarrow> string \<Rightarrow> 's run_state \<Rightarrow> exn + 's run_state" where
  "makedirs e d st =
     (case io_error e (Makedirs d) of
        Some x \<Rightarrow> Inl x
      | None \<Rightarrow> Inr (st\<lparr>fsys := (fsys st)\<lparr>dirs := List.insert d (dirs (fsys st))\<rparr>\<rparr>))"

definition add_artifact :: "string \<Rightarrow> string \<Rightarrow> string \<Rightarrow> 's results \<Rightarrow> 's results" where
  "add_artifact n t p r =
     r\<lparr>artifacts := artifacts r @ [\<lparr>a_name = n, a_type = t, a_path = p\<rparr>]\<rparr>"

text \<open>
  One chart: the plot is drawn, \<^verbatim>\<open>savefig\<close> writes the file, the artifact is recorded.
\<close>

definition save_chart :: "env \<Rightarrow> string \<Rightarrow> string \<Rightarrow> string \<Rightarrow> 's run_state \<Rightarrow> exn + 's run_state" where
  "save_chart e output_dir fname title st =
     (case io_error e (Plot fname) of
        Some x \<Rightarrow> Inl x
      | None \<Rightarrow>
          (let path = path_join output_dir fname in
           case io_error e (Savefig path) of
             Some x \<Rightarrow> Inl x
           | None \<Rightarrow>
               Inr (st\<lparr>fsys := write_file path (Chart title) (fsys st),
                       res := add_artifact fname ''chart'' path (res st)\<rparr>)))"

text \<open>\<^verbatim>\<open>to_csv\<close> of the processed frame, and its artifact.\<close>

definition save_csv :: "env \<Rightarrow> string \<Rightarrow> string \<Rightarrow> frame \<Rightarrow> 's run_state \<Rightarrow> exn + 's run_state" where
  "save_csv e output_dir fname df st =
     (let path = path_join output_dir fname in
      case io_error e (ToCsv path) of
        Some x \<Rightarrow> Inl x
      | None \<Rightarrow>
          Inr (st\<lparr>fsys := write_file path (Csv df) (fsys st),
                  res := add_artifact fname ''csv'' path (res st)\<rparr>))"

definition set_success :: "'s run_state \<Rightarrow> exn + 's run_state" where
  "set_success st = Inr (st\<lparr>res := (res st)\<lparr>success := True\<rparr>\<rparr>)"

text \<open>
  The end of every \<^verbatim>\<open>run_analysis\<close>: \<^verbatim>\<open>except Exception as e\<close> appends one message and the
  results are returned.
\<close>

definition finish :: "exn option \<times> 's run_state \<Rightarrow> 's results \<times> fs" where
  "finish out =
     (case out of
        (None, st) \<Rightarrow> (res st, fsys st)
      | (Some x, st) \<Rightarrow>
          ((res st)\<lparr>errors := errors (res st) @ [''Analysis error: '' @ exn_str x]\<rparr>, fsys st))"

section \<open>channels.py\<close>

text \<open>
  \<^verbatim>\<open>required_cols - set(df.columns)\<close>, in the iteration order of the run: the required
  labels that are not column labels of the frame.
\<close>

definition missing_cols :: "frame \<Rightarrow> pyval list \<Rightarrow> pyval list" where
  "missing_cols df required_cols = filter (\<lambda>v. v \<notin> PStr ` set (columns df)) required_cols"

definition validate_columns :: "frame \<Rightarrow> pyval list \<Rightarrow> string \<Rightarrow> bool" where
  "validate_columns df required_cols error_msg =
     (if missing_cols df required_cols \<noteq> [] then False else True)"

text \<open>\<^verbatim>\<open>df[col]\<close> for a label that is any hashable value.\<close>

definition get_col_val :: "frame \<Rightarrow> pyval \<Rightarrow> exn + column" where
  "get_col_val df v = (case v of PStr c \<Rightarrow> get_col df c | _ \<Rightarrow> Inl (KeyError ''label''))"

text \<open>The loop over \<^verbatim>\<open>numeric_cols\<close> of \<^verbatim>\<open>validate_df_structure\<close>.\<close>

fun channels_numeric_errors :: "frame \<Rightarrow> pyval list \<Rightarrow> exn + string list" where
  "channels_numeric_errors df [] = Inr []"
| "channels_numeric_errors df (col # cols) =
     bind_exn (get_col_val df col) (\<lambda>c.
     bind_exn (channels_numeric_errors df cols) (\<lambda>errs.
       Inr (if \<not> is_numeric_dtype c
            then (str_of col @ '' column must contain only numbers.'') # errs
            else errs)))"

definition channels_validate_df_structure ::
    "frame \<Rightarrow> pyval list \<Rightarrow> pyval list \<Rightarrow> exn + bool \<times> string list" where
  "channels_validate_df_structure df required_cols numeric_cols =
     (if \<not> validate_columns df required_cols ''file is missing required columns.'' then
        bind_exn (py_join '', '' (missing_cols df required_cols)) (\<lambda>s.
          Inr (False, [''Missing columns: '' @ s]))
      else if \<not> set numeric_cols \<subseteq> set required_cols then
        Inr (False, [''Numeric columns not in required columns.''])
      else
        bind_exn (channels_numeric_errors df numeric_cols) (\<lambda>errs.
          Inr (errs = [], errs)))"

text \<open>\<^verbatim>\<open>raw_df[list(required_cols)]\<close>: the listed columns, in the order of the list.\<close>

fun select_cols :: "frame \<Rightarrow> pyval list \<Rightarrow> exn + frame" where
  "select_cols df [] = Inr []"
| "select_cols df (v # vs) =
     bind_exn (get_col_val df v) (\<lambda>c.
     bind_exn (select_cols df vs) (\<lambda>rest. Inr ((str_of v, c) # rest)))"

text \<open>
  The loop \<^verbatim>\<open>for col in numeric_cols: cleaned_df[col] = pd.to_numeric(...).fillna(0)\<close>.
\<close>

fun coerce_numeric_cols :: "(string \<Rightarrow> flt option) \<Rightarrow> pyval list \<Rightarrow> frame \<Rightarrow> exn + frame" where
  "coerce_numeric_cols parse [] df = Inr df"
| "coerce_numeric_cols parse (v # vs) df =
     bind_exn (get_col_val df v) (\<lambda>c.
       coerce_numeric_cols parse vs (set_col df (str_of v) (fillna0 (to_numeric_coerce parse c))))"

text \<open>
  The final \<^verbatim>\<open>astype\<close>: in the dictionary literal a later key wins, so a numeric column is
  cast to int64 even when it is \<^verbatim>\<open>Target\<close>; \<^verbatim>\<open>Target\<close> is otherwise cast to the string type,
  which leaves an object column of strings as it is; other columns are not touched.
\<close>

fun channels_astype :: "pyval list \<Rightarrow> frame \<Rightarrow> exn + frame" where
  "channels_astype numeric_cols [] = Inr []"
| "channels_astype numeric_cols ((n, c) # df) =
     bind_exn (if PStr n \<in> set numeric_cols then astype_int64 c else Inr c) (\<lambda>c'.
     bind_exn (channels_astype numeric_cols df) (\<lambda>rest. Inr ((n, c') # rest)))"

definition channels_clean_df ::
    "(string \<Rightarrow> flt option) \<Rightarrow> frame \<Rightarrow> pyval list \<Rightarrow> pyval list \<Rightarrow> exn + frame" where
  "channels_clean_df parse raw_df required_cols numeric_cols =
     bind_exn (select_cols raw_df required_cols) (\<lambda>cleaned_df.
     bind_exn (get_col cleaned_df ''Target'') (\<lambda>target.
     bind_exn (str_strip_lower target) (\<lambda>target'.
     bind_exn (coerce_numeric_cols parse numeric_cols (set_col cleaned_df ''Target'' target'))
       (\<lambda>df1.
     bind_exn (get_col df1 ''Target'') (\<lambda>t1.
     bind_exn (get_col (keep_rows (notna_mask t1) df1) ''Target'') (\<lambda>t2.
     bind_exn (get_col (keep_rows (ne_str_mask [] t2) (keep_rows (notna_mask t1) df1)) ''Target'')
       (\<lambda>t3.
       channels_astype numeric_cols
         (keep_rows (first_occurrence_mask t3)
           (keep_rows (ne_str_mask [] t2) (keep_rows (notna_mask t1) df1))))))))))"

subsection \<open>The summary of a channel run\<close>

record channel_summary =
  total_traffic :: int
  channel_breakdown :: "(string \<times> int) list"
  target_breakdown :: "(cell \<times> int) list"
  top_channel :: string
  top_target :: "cell option"

text \<open>
  \<^verbatim>\<open>clean_data[col]\<close> for the numeric columns, in the iteration order of \<^verbatim>\<open>numeric_cols\<close>.
  After the \<^verbatim>\<open>astype\<close> of \<^verbatim>\<open>clean_df\<close> each of them is an int64 column; the other branches
  are not reached from \<^verbatim>\<open>run_analysis\<close> (lemma \<open>int_columns_clean\<close> below).
\<close>

fun int_columns :: "frame \<Rightarrow> pyval list \<Rightarrow> exn + (string \<times> int64 list) list" where
  "int_columns df [] = Inr []"
| "int_columns df (v # vs) =
     bind_exn (get_col_val df v) (\<lambda>c.
     bind_exn (case c of I64 ws \<Rightarrow> Inr ws | _ \<Rightarrow> Inl (TypeError ''not an int64 column'')) (\<lambda>ws.
     bind_exn (int_columns df vs) (\<lambda>rest. Inr ((str_of v, ws) # rest))))"

text \<open>\<^verbatim>\<open>int(clean_data[col].sum())\<close>: the sum of an int64 column wraps around.\<close>

definition column_total :: "int64 list \<Rightarrow> int" where
  "column_total ws = sint (sum_list ws)"

text \<open>
  \<^verbatim>\<open>int(row[list(numeric_cols)].sum())\<close>: \<^verbatim>\<open>iterrows\<close> yields the row as Python objects,
  whose sum does not wrap.
\<close>

definition row_total :: "(string \<times> int64 list) list \<Rightarrow> nat \<Rightarrow> int" where
  "row_total cols i = sum_list (map (\<lambda>cw. sint (snd cw ! i)) cols)"

definition cell_at :: "column \<Rightarrow> nat \<Rightarrow> cell" where
  "cell_at col i = col_cells col ! i"

text \<open>\<^verbatim>\<open>max(d, key=d.get)\<close>: the first key, in the order of the dictionary, of greatest value.\<close>

fun first_max :: "('k \<times> int) list \<Rightarrow> ('k \<times> int) option" where
  "first_max [] = None"
| "first_max (x # xs) =
     (case first_max xs of
        None \<Rightarrow> Some x
      | Some y \<Rightarrow> if snd x < snd y then Some y else Some x)"

definition channels_summary :: "pyval list \<Rightarrow> frame \<Rightarrow> exn + channel_summary" where
  "channels_summary numeric_cols clean_data =
     bind_exn (int_columns clean_data numeric_cols) (\<lambda>cols.
     bind_exn (get_col clean_data ''Target'') (\<lambda>target.
       (let channel_totals =
              fold (\<lambda>cw d. assoc_set d (fst cw) (column_total (snd cw))) cols [];
            target_totals =
              fold (\<lambda>i d. assoc_set d (cell_at target i) (row_total cols i))
                [0..<col_len target] []
        in case first_max channel_totals of
             None \<Rightarrow> Inl (ValueError ''max() arg is an empty sequence'')
           | Some best \<Rightarrow>
               Inr \<lparr>total_traffic = sum_list (map snd channel_totals),
                    channel_breakdown = channel_totals,
                    target_breakdown = target_totals,
                    top_channel = fst best,
                    top_target = map_option fst (first_max target_totals)\<rparr>)))"

subsection \<open>run_analysis\<close>

definition required_column_names :: "pyval list" where
  "required_column_names =
     [PStr ''Target'', PStr ''Direct'', PStr ''Referral'', PStr ''Organic Search'',
      PStr ''Paid Search'', PStr ''Organic Social'', PStr ''Paid Social'',
      PStr ''Email'', PStr ''Display Ads'']"

definition numeric_column_names :: "pyval list" where
  "numeric_column_names =
     [PStr ''Direct'', PStr ''Referral'', PStr ''Organic Search'',
      PStr ''Paid Search'', PStr ''Organic Social'', PStr ''Paid Social'',
      PStr ''Email'', PStr ''Display Ads'']"

definition default_required_columns :: pyval where
  "default_required_columns = PList required_column_names"

definition default_numeric_columns :: pyval where
  "default_numeric_columns = PList numeric_column_names"

definition channels_summary_step ::
    "pyval list \<Rightarrow> frame \<Rightarrow> channel_summary run_state \<Rightarrow> exn + channel_summary run_state" where
  "channels_summary_step numeric_cols clean_data st =
     bind_exn (channels_summary numeric_cols clean_data) (\<lambda>s.
       Inr (st\<lparr>res := (res st)\<lparr>summary := Some s\<rparr>\<rparr>))"

text \<open>
  The body of the \<^verbatim>\<open>try\<close> block. A failed validation stores its messages and returns; the
  output directory is created only after validation and cleaning.
\<close>

definition channels_try ::
    "env \<Rightarrow> string \<Rightarrow> string \<Rightarrow> pyval list \<Rightarrow> pyval list \<Rightarrow> channel_summary run_state
      \<Rightarrow> exn option \<times> channel_summary run_state" where
  "channels_try e input_file output_dir required_cols numeric_cols st =
     (case read_csv e input_file of
        Inl x \<Rightarrow> (Some x, st)
      | Inr df \<Rightarrow>
     (case channels_validate_df_structure df required_cols numeric_cols of
        Inl x \<Rightarrow> (Some x, st)
      | Inr (is_valid, errs) \<Rightarrow>
          if \<not> is_valid then (None, st\<lparr>res := (res st)\<lparr>errors := errs\<rparr>\<rparr>)
          else
     (case channels_clean_df (parse_num e) df required_cols numeric_cols of
        Inl x \<Rightarrow> (Some x, st)
      | Inr clean_data \<Rightarrow>
          run_steps
            [makedirs e output_dir,
             save_chart e output_dir ''traffic_by_channel.png'' ''Traffic by Channel'',
             save_chart e output_dir ''channel_mix_by_target.png'' ''Channel Mix by Target'',
             save_chart e output_dir ''channel_comparison.png''
               ''Traffic Comparison by Channel and Target'',
             channels_summary_step numeric_cols clean_data,
             save_csv e output_dir ''channel_analysis.csv'' clean_data,
             set_success]
            st)))"

text \<open>
  \<^verbatim>\<open>run_analysis\<close>: the two \<^verbatim>\<open>set(config.get(...))\<close> calls stand before the \<^verbatim>\<open>try\<close>, so what
  they raise reaches the caller (\<open>Inl\<close>); everything after them is caught.
\<close>

definition channels_run_analysis ::
    "env \<Rightarrow> string \<Rightarrow> string \<Rightarrow> config option \<Rightarrow> fs \<Rightarrow> (exn + channel_summary results) \<times> fs" where
  "channels_run_analysis e input_file output_dir config f =
     (case py_set (cfg_get config ''required_columns'' default_required_columns) of
        Inl x \<Rightarrow> (Inl x, f)
      | Inr rq \<Rightarrow>
     (case py_set (cfg_get config ''numeric_columns'' default_numeric_columns) of
        Inl x \<Rightarrow> (Inl x, f)
      | Inr nm \<Rightarrow>
          (let required_cols = set_iter (set_hash e) rq;
               numeric_cols = set_iter (set_hash e) nm;
               out = finish (channels_try e input_file output_dir required_cols numeric_cols
                               \<lparr>res = init_results, fsys = f\<rparr>)
           in (Inr (fst out), snd out))))"

section \<open>helium.py\<close>

text \<open>
  \<^verbatim>\<open>re.match(r'^\d{4}-\d{2}-\d{2}$', col)\<close>: ten characters, digits around two hyphens; \<^verbatim>\<open>$\<close>
  also matches before one final newline.
\<close>

definition is_digit :: "char \<Rightarrow> bool" where
  "is_digit c = (let n = (of_char c :: nat) in 48 \<le> n \<and> n \<le> 57)"

definition is_date_core :: "string \<Rightarrow> bool" where
  "is_date_core s =
     (length s = 10 \<and> list_all (\<lambda>i. is_digit (s ! i)) [0, 1, 2, 3, 5, 6, 8, 9]
      \<and> s ! 4 = CHR ''-'' \<and> s ! 7 = CHR ''-'')"

definition is_date_col :: "string \<Rightarrow> bool" where
  "is_date_col s =
     (is_date_core s \<or> (length s = 11 \<and> is_date_core (take 10 s) \<and> s ! 10 = CHR 0x0A))"

definition date_columns :: "frame \<Rightarrow> string list" where
  "date_columns df = filter is_date_col (columns df)"

definition required_metrics :: "pyval list" where
  "required_metrics =
     [PStr ''organic traffic'', PStr ''organic keywords'', PStr ''organic traffic cost'',
      PStr ''paid traffic'', PStr ''paid keywords'', PStr ''paid traffic cost'']"

text \<open>
  \<^verbatim>\<open>set(df['Metric'].str.lower())\<close>, as inserted. A missing entry stays the float NaN, written
  \<open>PNone\<close> here: like NaN it is hashable and is not a string.
\<close>

definition metric_values :: "string option list \<Rightarrow> pyval list" where
  "metric_values xs = map (\<lambda>x. case x of None \<Rightarrow> PNone | Some s \<Rightarrow> PStr (py_lower s)) xs"

definition is_integer_dtype :: "column \<Rightarrow> bool" where
  "is_integer_dtype col = (case col of I64 _ \<Rightarrow> True | _ \<Rightarrow> False)"

text \<open>The list comprehension over \<^verbatim>\<open>date_columns\<close> at the end of the validator.\<close>

fun non_integer_date_cols :: "frame \<Rightarrow> string list \<Rightarrow> exn + string list" where
  "non_integer_date_cols df [] = Inr []"
| "non_integer_date_cols df (c # cs) =
     bind_exn (get_col df c) (\<lambda>col.
     bind_exn (non_integer_date_cols df cs) (\<lambda>rest.
       Inr (if \<not> is_integer_dtype col then c # rest else rest)))"

text \<open>The second half of \<^verbatim>\<open>validate_df_structure\<close>, reached when the three shape checks pass.\<close>

definition helium_validate_content ::
    "(pyval \<Rightarrow> nat) \<Rightarrow> frame \<Rightarrow> exn + bool \<times> string list" where
  "helium_validate_content h df =
     bind_exn (get_col df ''Metric'') (\<lambda>metric.
       (case metric of
          Obj xs \<Rightarrow>
            (let metric_values_in_file = metric_values xs in
             if set metric_values_in_file \<noteq> set required_metrics then
               (let missing = filter (\<lambda>v. v \<notin> set metric_values_in_file)
                                (set_iter h required_metrics);
                    extra = filter (\<lambda>v. v \<notin> set required_metrics)
                                (set_iter h metric_values_in_file)
                in bind_exn (if missing \<noteq> []
                             then bind_exn (py_join '', '' missing) (\<lambda>s.
                                    Inr [''Missing required metrics: '' @ s])
                             else Inr []) (\<lambda>m1.
                   bind_exn (if extra \<noteq> []
                             then bind_exn (py_join '', '' extra) (\<lambda>s.
                                    Inr [''Invalid metrics found: '' @ s])
                             else Inr []) (\<lambda>m2.
                     Inr (False, m1 @ m2))))
             else
               bind_exn (non_integer_date_cols df (date_columns df)) (\<lambda>bad.
                 if bad \<noteq> [] then
                   Inr (False, [''Non-integer values in date columns: '' @ join_strs '', '' bad])
                 else Inr (True, [])))
        | _ \<Rightarrow> Inr (False, ['''Metric' column must contain text/string data.''])))"

definition helium_shape_errors :: "frame \<Rightarrow> string list" where
  "helium_shape_errors df =
     (if nrows df \<noteq> 6
      then [''File must have exactly 6 rows, but it has '' @ show_nat (nrows df) @ ''.'']
      else [])
     @ (if ''Metric'' \<notin> set (columns df)
        then [''File is missing the required 'Metric' column.'']
        else [])
     @ (if length (date_columns df) < 3
        then [''File must have at least 3 date columns in format 'YYYY-MM-DD', but found ''
                @ show_nat (length (date_columns df)) @ ''.'']
        else [])"

definition helium_validate_df_structure ::
    "(pyval \<Rightarrow> nat) \<Rightarrow> frame \<Rightarrow> exn + bool \<times> string list" where
  "helium_validate_df_structure h df =
     (let error_messages = helium_shape_errors df in
      if error_messages \<noteq> [] then Inr (False, error_messages)
      else helium_validate_content h df)"

subsection \<open>Reshaping\<close>

definition dropping_cols :: "string list" where
  "dropping_cols = [''Target'', ''Target Type'', ''Database'', ''Summary'']"

text \<open>\<^verbatim>\<open>(col != 0).any()\<close> and \<^verbatim>\<open>col.isna().all()\<close> for one column.\<close>

definition any_nonzero :: "column \<Rightarrow> bool" where
  "any_nonzero col =
     (case col of
        I64 ws \<Rightarrow> list_ex (\<lambda>w. w \<noteq> 0) ws
      | F64 xs \<Rightarrow> list_ex (\<lambda>x. x \<noteq> Fin 0) xs
      | Obj xs \<Rightarrow> xs \<noteq> [])"

definition all_na :: "column \<Rightarrow> bool" where
  "all_na col =
     (case col of
        I64 ws \<Rightarrow> ws = []
      | F64 xs \<Rightarrow> list_all (\<lambda>x. x = NaN) xs
      | Obj xs \<Rightarrow> list_all (\<lambda>x. x = None) xs)"

text \<open>
  The cleaning of \<^verbatim>\<open>run_analysis\<close>: the four descriptive columns are dropped, then every
  column whose values are all 0, then every column whose values are all missing. (The cast
  of \<^verbatim>\<open>Metric\<close> to the string type leaves an object column as it is, and validation has
  made sure that it is one.)
\<close>

definition helium_clean :: "frame \<Rightarrow> frame" where
  "helium_clean df =
     filter (\<lambda>nc. \<not> all_na (snd nc))
       (filter (\<lambda>nc. any_nonzero (snd nc))
          (filter (\<lambda>nc. fst nc \<notin> set dropping_cols) df))"

text \<open>
  \<^verbatim>\<open>melt(id_vars='Metric', var_name='Date', value_name='Value')\<close>: one row per value column and
  input row, column by column.
\<close>

definition melt :: "string option list \<Rightarrow> frame \<Rightarrow> (string option \<times> string \<times> cell) list" where
  "melt metric value_cols =
     concat (map (\<lambda>nc. map (\<lambda>mv. (fst mv, fst nc, snd mv)) (zip metric (col_cells (snd nc))))
               value_cols)"

text \<open>\<^verbatim>\<open>pd.to_datetime(melted_df['Date'])\<close>: raises when a label is not a date.\<close>

fun dates_of ::
    "(cell \<Rightarrow> timestamp option) \<Rightarrow> (string option \<times> string \<times> cell) list
      \<Rightarrow> exn + (string option \<times> timestamp \<times> cell) list" where
  "dates_of parse [] = Inr []"
| "dates_of parse ((mt, label, v) # rows) =
     (case parse (CStr label) of
        None \<Rightarrow> Inl (ValueError (''Unknown datetime string format: '' @ label))
      | Some d \<Rightarrow> bind_exn (dates_of parse rows) (\<lambda>rest. Inr ((mt, d, v) # rest)))"

text \<open>
  \<^verbatim>\<open>pivot_table(values='Value', index='Date', columns='Metric', aggfunc='first')\<close>: the first
  value that is not missing of every (date, metric) group; groups with a missing key or
  without a value are left out; dates and metric names are sorted.
\<close>

record pivot =
  p_index :: "timestamp list"
  p_columns :: "string list"
  p_rows :: "cell list list"

definition first_value ::
    "(string option \<times> timestamp \<times> cell) list \<Rightarrow> timestamp \<Rightarrow> string \<Rightarrow> cell" where
  "first_value rows d m =
     (case filter (\<lambda>r. fst r = Some m \<and> fst (snd r) = d \<and> snd (snd r) \<noteq> CNull) rows of
        [] \<Rightarrow> CNull
      | r # _ \<Rightarrow> snd (snd r))"

definition pivot_table :: "(string option \<times> timestamp \<times> cell) list \<Rightarrow> pivot" where
  "pivot_table rows =
     (let groups = filter (\<lambda>r. fst r \<noteq> None \<and> snd (snd r) \<noteq> CNull) rows;
          idx = sort (remdups (map (\<lambda>r. fst (snd r)) groups));
          cols = sort (remdups (map (\<lambda>r. the (fst r)) groups))
      in \<lparr>p_index = idx, p_columns = cols,
          p_rows = map (\<lambda>d. map (\<lambda>m. first_value rows d m) cols) idx\<rparr>)"

subsection \<open>The trailing year, by month\<close>

definition is_leap :: "int \<Rightarrow> bool" where
  "is_leap y = (y mod 4 = 0 \<and> (y mod 100 \<noteq> 0 \<or> y mod 400 = 0))"

definition days_in_month :: "int \<Rightarrow> nat \<Rightarrow> nat" where
  "days_in_month y m =
     (if m = 2 then (if is_leap y then 29 else 28)
      else if m = 4 \<or> m = 6 \<or> m = 9 \<or> m = 11 then 30 else 31)"

text \<open>\<^verbatim>\<open>ts - pd.DateOffset(years=1)\<close>: the same month a year before, the day clipped.\<close>

definition minus_one_year :: "timestamp \<Rightarrow> timestamp" where
  "minus_one_year ts =
     (case ts of (y, m, d, t) \<Rightarrow> (y - 1, m, min d (days_in_month (y - 1) m), t))"

definition month_key :: "timestamp \<Rightarrow> int" where
  "month_key ts = (case ts of (y, m, d, t) \<Rightarrow> y * 12 + int m - 1)"

definition month_end :: "int \<Rightarrow> timestamp" where
  "month_end k =
     (let y = k div 12; m = nat (k mod 12) + 1 in (y, m, days_in_month y m, 0))"

text \<open>The int64 sum, with its wrap-around, on mathematical integers.\<close>

definition wrap64 :: "int \<Rightarrow> int" where
  "wrap64 i = sint (word_of_int i :: int64)"

fun is_cint :: "cell \<Rightarrow> bool" where
  "is_cint (CInt _) = True"
| "is_cint _ = False"

fun cint_val :: "cell \<Rightarrow> int" where
  "cint_val (CInt i) = i"
| "cint_val _ = 0"

text \<open>
  \<^verbatim>\<open>.sum()\<close> over part of a column: a column of the pivot whose cells are all integers is
  an int64 column and is summed as such; any other column is summed by the library.
\<close>

definition sum_cells :: "env \<Rightarrow> bool \<Rightarrow> cell list \<Rightarrow> exn + cell" where
  "sum_cells e int_col cs =
     (if int_col then Inr (CInt (wrap64 (sum_list (map cint_val cs)))) else lib_sum e cs)"

fun sum_columns :: "env \<Rightarrow> bool list \<Rightarrow> cell list list \<Rightarrow> exn + cell list" where
  "sum_columns e [] cols = Inr []"
| "sum_columns e (b # bs) [] = Inr []"
| "sum_columns e (b # bs) (c # cols) =
     bind_exn (sum_cells e b c) (\<lambda>v.
     bind_exn (sum_columns e bs cols) (\<lambda>rest. Inr (v # rest)))"

text \<open>The column \<open>j\<close> of a list of rows.\<close>

definition column_of :: "cell list list \<Rightarrow> nat \<Rightarrow> cell list" where
  "column_of rows j = map (\<lambda>r. r ! j) rows"

text \<open>
  \<^verbatim>\<open>filtered_df.resample('ME').sum()\<close>: one row per calendar month from the first to the last
  date of the window, labelled by the end of the month.
\<close>

fun resample_months ::
    "env \<Rightarrow> bool list \<Rightarrow> nat \<Rightarrow> (timestamp \<times> cell list) list \<Rightarrow> int list
      \<Rightarrow> exn + (timestamp \<times> cell list) list" where
  "resample_months e int_cols n rows [] = Inr []"
| "resample_months e int_cols n rows (k # ks) =
     (let in_month = map snd (filter (\<lambda>r. month_key (fst r) = k) rows) in
      bind_exn (sum_columns e int_cols (map (column_of in_month) [0..<n])) (\<lambda>totals.
      bind_exn (resample_months e int_cols n rows ks) (\<lambda>rest.
        Inr ((month_end k, totals) # rest))))"

record monthly =
  m_columns :: "string list"
  m_int :: "bool list"
  m_rows :: "(timestamp \<times> cell list) list"
  m_start :: timestamp
  m_end :: timestamp

text \<open>
  From the validated frame to the monthly table. An empty pivot has no greatest date, and
  slicing by it raises.
\<close>

definition helium_reshape :: "env \<Rightarrow> frame \<Rightarrow> exn + monthly" where
  "helium_reshape e df =
     (let cleaned_df = helium_clean df in
      bind_exn (get_col cleaned_df ''Metric'') (\<lambda>metric.
      bind_exn (case metric of Obj xs \<Rightarrow> Inr xs
                | _ \<Rightarrow> Inl (TypeError ''Metric is not an object column'')) (\<lambda>labels.
      bind_exn (dates_of (parse_datetime e)
                 (melt labels (filter (\<lambda>nc. fst nc \<noteq> ''Metric'') cleaned_df))) (\<lambda>melted.
        (let pivoted_df = pivot_table melted in
         if p_index pivoted_df = [] then
           Inl (TypeError ''cannot do slice indexing on DatetimeIndex with these indexers [NaT]'')
         else
           (let end_date = last (p_index pivoted_df);
                start_date = minus_one_year end_date;
                n = length (p_columns pivoted_df);
                int_cols = map (\<lambda>j. list_all is_cint (column_of (p_rows pivoted_df) j)) [0..<n];
                filtered = filter (\<lambda>r. start_date \<le> fst r \<and> fst r \<le> end_date)
                             (zip (p_index pivoted_df) (p_rows pivoted_df))
            in bind_exn (resample_months e int_cols n filtered
                           (case filtered of
                              [] \<Rightarrow> []
                            | r # _ \<Rightarrow> [month_key (fst r) .. month_key end_date])) (\<lambda>rows.
                 Inr \<lparr>m_columns = p_columns pivoted_df, m_int = int_cols, m_rows = rows,
                      m_start = start_date, m_end = end_date\<rparr>)))))))"

subsection \<open>Charts, summary and run_analysis\<close>

text \<open>
  A plotting function reads its metrics from the monthly table first (\<^verbatim>\<open>df[y1_metric]\<close>): a
  metric that is not a column raises \<^verbatim>\<open>KeyError\<close>.
\<close>

definition helium_chart ::
    "env \<Rightarrow> string \<Rightarrow> monthly \<Rightarrow> string list \<Rightarrow> string \<Rightarrow> string \<Rightarrow> 's run_state
      \<Rightarrow> exn + 's run_state" where
  "helium_chart e output_dir mt metrics fname title st =
     (case filter (\<lambda>m. m \<notin> set (m_columns mt)) metrics of
        m # _ \<Rightarrow> Inl (KeyError m)
      | [] \<Rightarrow> save_chart e output_dir fname title st)"

text \<open>\<^verbatim>\<open>df_monthly[name]\<close>: whether the column is int64, and its cells.\<close>

fun find_index_of :: "string \<Rightarrow> string list \<Rightarrow> nat option" where
  "find_index_of x [] = None"
| "find_index_of x (y # ys) = (if x = y then Some 0 else map_option Suc (find_index_of x ys))"

definition monthly_column :: "monthly \<Rightarrow> string \<Rightarrow> exn + bool \<times> cell list" where
  "monthly_column mt name =
     (case find_index_of name (m_columns mt) of
        None \<Rightarrow> Inl (KeyError name)
      | Some j \<Rightarrow> Inr (m_int mt ! j, map (\<lambda>r. snd r ! j) (m_rows mt)))"

text \<open>\<^verbatim>\<open>int(x)\<close> of a sum.\<close>

fun py_int :: "cell \<Rightarrow> exn + int" where
  "py_int (CInt i) = Inr i"
| "py_int (CFlt (Fin r)) = Inr (trunc_rat r)"
| "py_int (CFlt _) = Inl (ValueError ''cannot convert float NaN or infinity to integer'')"
| "py_int CNull = Inl (ValueError ''cannot convert float NaN to integer'')"
| "py_int (CStr s) = Inl (ValueError ''invalid literal for int()'')"

definition pad_left :: "nat \<Rightarrow> string \<Rightarrow> string" where
  "pad_left n s = replicate (n - length s) CHR ''0'' @ s"

text \<open>\<^verbatim>\<open>strftime('%Y-%m-%d')\<close>.\<close>

definition fmt_date :: "timestamp \<Rightarrow> string" where
  "fmt_date ts =
     (case ts of (y, m, d, t) \<Rightarrow>
        pad_left 4 (show_int y) @ ''-'' @ pad_left 2 (show_nat m) @ ''-'' @ pad_left 2 (show_nat d))"

record helium_summary =
  total_organic_traffic :: int
  total_paid_traffic :: int
  avg_monthly_organic :: flt
  avg_monthly_paid :: flt
  date_range_start :: string
  date_range_end :: string

definition helium_total :: "env \<Rightarrow> monthly \<Rightarrow> string \<Rightarrow> exn + int" where
  "helium_total e mt name =
     bind_exn (monthly_column mt name) (\<lambda>col.
     bind_exn (sum_cells e (fst col) (snd col)) py_int)"

definition helium_mean :: "env \<Rightarrow> monthly \<Rightarrow> string \<Rightarrow> exn + flt" where
  "helium_mean e mt name =
     bind_exn (monthly_column mt name) (\<lambda>col. Inr (lib_mean e (snd col)))"

definition helium_summary_of :: "env \<Rightarrow> monthly \<Rightarrow> exn + helium_summary" where
  "helium_summary_of e mt =
     bind_exn (helium_total e mt ''Organic Traffic'') (\<lambda>organic.
     bind_exn (helium_total e mt ''Paid Traffic'') (\<lambda>paid.
     bind_exn (helium_mean e mt ''Organic Traffic'') (\<lambda>avg_organic.
     bind_exn (helium_mean e mt ''Paid Traffic'') (\<lambda>avg_paid.
       Inr \<lparr>total_organic_traffic = organic,
            total_paid_traffic = paid,
            avg_monthly_organic = avg_organic,
            avg_monthly_paid = avg_paid,
            date_range_start = fmt_date (m_start mt),
            date_range_end = fmt_date (m_end mt)\<rparr>))))"

definition helium_summary_step ::
    "env \<Rightarrow> monthly \<Rightarrow> helium_summary run_state \<Rightarrow> exn + helium_summary run_state" where
  "helium_summary_step e mt st =
     bind_exn (helium_summary_of e mt) (\<lambda>s.
       Inr (st\<lparr>res := (res st)\<lparr>summary := Some s\<rparr>\<rparr>))"

text \<open>\<^verbatim>\<open>df_monthly.to_csv(csv_path)\<close>: the index is written as the first column.\<close>

definition monthly_table :: "monthly \<Rightarrow> content" where
  "monthly_table mt =
     CsvTable (''Date'' # m_columns mt) (map (\<lambda>r. CStr (fmt_date (fst r)) # snd r) (m_rows mt))"

definition save_table ::
    "env \<Rightarrow> string \<Rightarrow> string \<Rightarrow> content \<Rightarrow> 's run_state \<Rightarrow> exn + 's run_state" where
  "save_table e output_dir fname c st =
     (let path = path_join output_dir fname in
      case io_error e (ToCsv path) of
        Some x \<Rightarrow> Inl x
      | None \<Rightarrow>
          Inr (st\<lparr>fsys := write_file path c (fsys st),
                  res := add_artifact fname ''csv'' path (res st)\<rparr>))"

definition helium_try ::
    "env \<Rightarrow> string \<Rightarrow> string \<Rightarrow> helium_summary run_state
      \<Rightarrow> exn option \<times> helium_summary run_state" where
  "helium_try e input_file output_dir st =
     (case read_csv e input_file of
        Inl x \<Rightarrow> (Some x, st)
      | Inr df \<Rightarrow>
     (case helium_validate_df_structure (set_hash e) df of
        Inl x \<Rightarrow> (Some x, st)
      | Inr (is_valid, errs) \<Rightarrow>
          if \<not> is_valid then (None, st\<lparr>res := (res st)\<lparr>errors := errs\<rparr>\<rparr>)
          else
     (case helium_reshape e df of
        Inl x \<Rightarrow> (Some x, st)
      | Inr df_monthly \<Rightarrow>
          run_steps
            [makedirs e output_dir,
             helium_chart e output_dir df_monthly [''Organic Traffic'', ''Organic Keywords'']
               ''organic_traffic_vs_keywords.png'' ''Organic Traffic vs Organic Keywords'',
             helium_chart e output_dir df_monthly
               [''Paid Traffic'', ''Paid Traffic Cost'', ''Paid Keywords'']
               ''paid_metrics.png'' ''Paid Traffic, Paid Traffic Cost vs Paid Keywords'',
             helium_summary_step e df_monthly,
             save_table e output_dir ''processed_monthly_data.csv'' (monthly_table df_monthly),
             set_success]
            st)))"

text \<open>
  \<^verbatim>\<open>run_analysis\<close>: the whole body is inside the \<^verbatim>\<open>try\<close>, and \<^verbatim>\<open>config\<close> is not read.
\<close>

definition helium_run_analysis ::
    "env \<Rightarrow> string \<Rightarrow> string \<Rightarrow> config option \<Rightarrow> fs \<Rightarrow> (exn + helium_summary results) \<times> fs" where
  "helium_run_analysis e input_file output_dir config f =
     (let out = finish (helium_try e input_file output_dir \<lparr>res = init_results, fsys = f\<rparr>)
      in (Inr (fst out), snd out))"

section \<open>keywords.py\<close>

subsection \<open>Validation\<close>

text \<open>
  \<^verbatim>\<open>pd.to_datetime(col, errors='raise')\<close> and \<^verbatim>\<open>errors='coerce'\<close>: a missing cell becomes NaT;
  a cell the library cannot read raises, or becomes NaT.
\<close>

definition to_datetime_ok :: "(cell \<Rightarrow> timestamp option) \<Rightarrow> cell list \<Rightarrow> bool" where
  "to_datetime_ok parse cs = list_all (\<lambda>c. c = CNull \<or> parse c \<noteq> None) cs"

definition to_datetime_coerce :: "(cell \<Rightarrow> timestamp option) \<Rightarrow> cell list \<Rightarrow> timestamp option list" where
  "to_datetime_coerce parse cs = map (\<lambda>c. if c = CNull then None else parse c) cs"

text \<open>
  \<^verbatim>\<open>validate_df_structure\<close>. The three content checks all run and their messages accumulate;
  a missing \<^verbatim>\<open>Traffic\<close>, \<^verbatim>\<open>Search Volume\<close> or \<^verbatim>\<open>Timestamp\<close> column is a \<^verbatim>\<open>KeyError\<close>, which the
  inner \<^verbatim>\<open>except (ValueError, TypeError)\<close> does not catch. The library's own wording of a
  date error is not modelled.
\<close>

definition keywords_validate_df_structure ::
    "env \<Rightarrow> frame \<Rightarrow> pyval list \<Rightarrow> exn + bool \<times> string list" where
  "keywords_validate_df_structure e df required_cols =
     (if \<not> validate_columns df required_cols ''file is missing required columns.'' then
        bind_exn (py_join '', '' (missing_cols df required_cols)) (\<lambda>s.
          Inr (False, [''Missing columns: '' @ s]))
      else
        bind_exn (get_col df ''Traffic'') (\<lambda>traffic.
        bind_exn (get_col df ''Search Volume'') (\<lambda>volume.
        bind_exn (get_col df ''Timestamp'') (\<lambda>stamp.
          (let errs =
                 (if \<not> is_numeric_dtype traffic
                  then ['''Traffic' column must contain only numbers.''] else [])
                 @ (if \<not> is_numeric_dtype volume
                    then ['''Search Volume' column must contain only numbers.''] else [])
                 @ (if \<not> to_datetime_ok (parse_datetime e) (col_cells stamp)
                    then ['''Timestamp' column contains invalid dates: unable to parse'']
                    else [])
           in Inr (errs = [], errs))))))"

subsection \<open>Cleaning\<close>

text \<open>A count is an int64 or a float64, as its column is.\<close>

datatype num = NI int64 | NF flt

fun num_cells :: "column \<Rightarrow> num list" where
  "num_cells (I64 ws) = map NI ws"
| "num_cells (F64 xs) = map NF xs"
| "num_cells (Obj xs) = map (\<lambda>x. NF NaN) xs"

text \<open>A row of the cleaned frame before reconciliation, and a row of the final frame.\<close>

record kw_raw =
  r_keyword :: string
  r_month :: int
  r_intents :: "string option"
  r_traffic :: num
  r_volume :: num

record kw_row =
  keyword :: string
  year_month :: int
  traffic :: int64
  search_volume :: int64
  intent :: string

text \<open>\<^verbatim>\<open>Timestamp.dt.to_period('M')\<close>: the number of the calendar month.\<close>

definition to_period_M :: "timestamp \<Rightarrow> int" where
  "to_period_M ts = month_key ts"

text \<open>
  The rows that survive \<^verbatim>\<open>dropna(subset=['Keyword', 'Timestamp'])\<close> and \<^verbatim>\<open>Keyword != ''\<close>,
  with their \<^verbatim>\<open>YearMonth\<close>.
\<close>

fun kw_rows ::
    "string option list \<Rightarrow> timestamp option list \<Rightarrow> string option list \<Rightarrow> num list \<Rightarrow> num list
      \<Rightarrow> kw_raw list" where
  "kw_rows (k # ks) (t # ts) (i # is) (a # as) (v # vs) =
     (case (k, t) of
        (Some kw, Some ts') \<Rightarrow>
          (if kw \<noteq> [] then
             [\<lparr>r_keyword = kw, r_month = to_period_M ts', r_intents = i,
               r_traffic = a, r_volume = v\<rparr>]
           else [])
      | _ \<Rightarrow> [])
     @ kw_rows ks ts is as vs"
| "kw_rows _ _ _ _ _ = []"

text \<open>Order and arithmetic of counts: int64 values as signed, floats with NaN apart.\<close>

fun flt_less :: "flt \<Rightarrow> flt \<Rightarrow> bool" where
  "flt_less (Fin a) (Fin b) = (a < b)"
| "flt_less NegInf (Fin _) = True"
| "flt_less NegInf PosInf = True"
| "flt_less (Fin _) PosInf = True"
| "flt_less _ _ = False"

fun num_flt :: "num \<Rightarrow> flt" where
  "num_flt (NI w) = Fin (of_int (sint w))"
| "num_flt (NF x) = x"

fun is_ni :: "num \<Rightarrow> bool" where
  "is_ni (NI _) = True"
| "is_ni (NF _) = False"

fun ni_val :: "num \<Rightarrow> int64" where
  "ni_val (NI w) = w"
| "ni_val (NF _) = 0"

text \<open>
  \<^verbatim>\<open>'sum'\<close> of a group: an int64 sum wraps around; a float sum is the library's.
\<close>

definition num_sum :: "env \<Rightarrow> num list \<Rightarrow> num" where
  "num_sum e ns =
     (if list_all is_ni ns then NI (sum_list (map ni_val ns))
      else NF (float_sum e (map num_flt ns)))"

text \<open>\<^verbatim>\<open>'max'\<close> of a group: the greatest value, NaN skipped.\<close>

definition num_max2 :: "num \<Rightarrow> num \<Rightarrow> num" where
  "num_max2 a b =
     (case (a, b) of
        (NI x, NI y) \<Rightarrow> if sint x < sint y then NI y else NI x
      | _ \<Rightarrow> if num_flt a = NaN then b
             else if num_flt b = NaN then a
             else if flt_less (num_flt a) (num_flt b) then b else a)"

fun num_max :: "num list \<Rightarrow> num" where
  "num_max [] = NF NaN"
| "num_max [x] = x"
| "num_max (x # y # ys) = num_max2 x (num_max (y # ys))"

text \<open>
  \<^verbatim>\<open>groupby(['Keyword', 'YearMonth', 'Keyword Intents']).agg({'Traffic': 'sum',
  'Search Volume': 'max'})\<close>: rows whose intents are missing belong to no group; the groups
  come in the order of their keys.
\<close>

definition group_key :: "kw_raw \<Rightarrow> string \<times> int \<times> string" where
  "group_key r = (r_keyword r, r_month r, the (r_intents r))"

definition kw_groups :: "env \<Rightarrow> kw_raw list \<Rightarrow> kw_raw list" where
  "kw_groups e rows =
     (let present = filter (\<lambda>r. r_intents r \<noteq> None) rows in
      map (\<lambda>k. (let grp = filter (\<lambda>r. group_key r = k) present in
                 \<lparr>r_keyword = fst k, r_month = fst (snd k), r_intents = Some (snd (snd k)),
                  r_traffic = num_sum e (map r_traffic grp),
                  r_volume = num_max (map r_volume grp)\<rparr>))
          (sort (remdups (map group_key present))))"

text \<open>
  \<^verbatim>\<open>sort_values(by=['Traffic', 'Search Volume'], ascending=False)\<close>: a stable sort, greatest
  traffic first, then greatest search volume; NaN last.
\<close>

definition num_before :: "num \<Rightarrow> num \<Rightarrow> bool" where
  "num_before a b =
     (case (a, b) of
        (NI x, NI y) \<Rightarrow> sint y < sint x
      | _ \<Rightarrow> if num_flt a = NaN then False
             else if num_flt b = NaN then True
             else flt_less (num_flt b) (num_flt a))"

definition row_before :: "kw_raw \<Rightarrow> kw_raw \<Rightarrow> bool" where
  "row_before a b =
     (num_before (r_traffic a) (r_traffic b)
      \<or> (\<not> num_before (r_traffic b) (r_traffic a) \<and> num_before (r_volume a) (r_volume b)))"

fun insert_stable :: "('a \<Rightarrow> 'a \<Rightarrow> bool) \<Rightarrow> 'a \<Rightarrow> 'a list \<Rightarrow> 'a list" where
  "insert_stable prec x [] = [x]"
| "insert_stable prec x (y # ys) =
     (if prec y x then y # insert_stable prec x ys else x # y # ys)"

definition sort_stable :: "('a \<Rightarrow> 'a \<Rightarrow> bool) \<Rightarrow> 'a list \<Rightarrow> 'a list" where
  "sort_stable prec xs = foldr (insert_stable prec) xs []"

definition reconcile :: "env \<Rightarrow> kw_raw list \<Rightarrow> kw_raw list" where
  "reconcile e rows = sort_stable row_before (kw_groups e rows)"

text \<open>
  Intents: \<^verbatim>\<open>.str.split(',')\<close>, \<^verbatim>\<open>explode\<close>, \<^verbatim>\<open>.str.strip().str.lower()\<close>, and the filter
  \<^verbatim>\<open>isin(valid_intents)\<close>. A row that fails the filter is left out and nothing records it.
\<close>

definition intents_of :: "string \<Rightarrow> string list" where
  "intents_of s = map (\<lambda>p. py_lower (py_strip p)) (py_split CHR '','' s)"

definition explode_row :: "pyval list \<Rightarrow> kw_raw \<Rightarrow> (kw_raw \<times> string) list" where
  "explode_row valid_intents r =
     map (\<lambda>i. (r, i))
       (filter (\<lambda>i. PStr i \<in> set valid_intents)
          (intents_of (case r_intents r of None \<Rightarrow> [] | Some s \<Rightarrow> s)))"

text \<open>The final \<^verbatim>\<open>astype\<close> of the two counts of one row.\<close>

definition num_to_int64 :: "num \<Rightarrow> exn + int64" where
  "num_to_int64 n =
     (case n of
        NI w \<Rightarrow> Inr w
      | NF x \<Rightarrow> if finite_flt x then Inr (flt_to_int64 x)
                else Inl (ValueError ''Cannot convert non-finite values (NA or inf) to integer''))"

fun kw_astype :: "(kw_raw \<times> string) list \<Rightarrow> exn + kw_row list" where
  "kw_astype [] = Inr []"
| "kw_astype ((r, i) # rest) =
     bind_exn (num_to_int64 (r_traffic r)) (\<lambda>t.
     bind_exn (num_to_int64 (r_volume r)) (\<lambda>v.
     bind_exn (kw_astype rest) (\<lambda>rows.
       Inr (\<lparr>keyword = r_keyword r, year_month = r_month r, traffic = t,
             search_volume = v, intent = i\<rparr> # rows))))"

text \<open>The \<^verbatim>\<open>Keyword Intents\<close> column must allow the \<^verbatim>\<open>.str\<close> accessor.\<close>

definition obj_cells :: "column \<Rightarrow> exn + string option list" where
  "obj_cells col =
     (case col of
        Obj xs \<Rightarrow> Inr xs
      | _ \<Rightarrow> Inl (AttributeError ''Can only use .str accessor with string values''))"

text \<open>
  \<^verbatim>\<open>clean_df\<close> up to \<^verbatim>\<open>reconciled_df\<close>: the required columns are selected, the keyword is
  trimmed and lower-cased, the counts and the timestamp are coerced, rows without keyword
  or timestamp are dropped, and the duplicates are reconciled.
\<close>

definition keywords_reconciled_df :: "env \<Rightarrow> frame \<Rightarrow> pyval list \<Rightarrow> exn + kw_raw list" where
  "keywords_reconciled_df e raw_df required_cols =
     bind_exn (select_cols raw_df required_cols) (\<lambda>cleaned_df.
     bind_exn (get_col cleaned_df ''Keyword'') (\<lambda>kw.
     bind_exn (str_strip_lower kw) (\<lambda>kw'.
     bind_exn (obj_cells kw') (\<lambda>keywords.
     bind_exn (get_col cleaned_df ''Traffic'') (\<lambda>tr.
     bind_exn (get_col cleaned_df ''Search Volume'') (\<lambda>vol.
     bind_exn (get_col cleaned_df ''Timestamp'') (\<lambda>stamp.
     bind_exn (get_col cleaned_df ''Keyword Intents'') (\<lambda>ki.
     bind_exn (obj_cells ki) (\<lambda>intents.
       Inr (reconcile e
              (kw_rows keywords
                 (to_datetime_coerce (parse_datetime e) (col_cells stamp))
                 intents
                 (num_cells (fillna0 (to_numeric_coerce (parse_num e) tr)))
                 (num_cells (fillna0 (to_numeric_coerce (parse_num e) vol))))))))))))))"

text \<open>\<^verbatim>\<open>clean_df\<close>: the reconciled rows are exploded by intent, filtered and cast.\<close>

definition keywords_clean_df ::
    "env \<Rightarrow> frame \<Rightarrow> pyval list \<Rightarrow> pyval list \<Rightarrow> exn + kw_row list" where
  "keywords_clean_df e raw_df required_cols valid_intents =
     bind_exn (keywords_reconciled_df e raw_df required_cols) (\<lambda>reconciled_df.
       kw_astype (concat (map (explode_row valid_intents) reconciled_df)))"

subsection \<open>Classification, window and summary\<close>

record kw_cat = kw_row +
  category :: string

text \<open>\<^verbatim>\<open>'|'.join(brand_keywords)\<close> on whatever the configuration holds.\<close>

definition brand_pattern_of :: "pyval \<Rightarrow> exn + string" where
  "brand_pattern_of v =
     (case v of
        PList vs \<Rightarrow> py_join ''|'' vs
      | PStr s \<Rightarrow> Inr (join_strs ''|'' (map (\<lambda>c. [c]) s))
      | PDict kvs \<Rightarrow> Inr (join_strs ''|'' (map fst kvs))
      | _ \<Rightarrow> Inl (TypeError ''can only join an iterable''))"

text \<open>
  \<^verbatim>\<open>np.where(clean_data['Keyword'].str.contains(brand_pattern, case=False, na=False),
  'branded', 'non-branded')\<close>.
\<close>

definition add_category :: "env \<Rightarrow> string \<Rightarrow> kw_row list \<Rightarrow> exn + kw_cat list" where
  "add_category e brand_pattern rows =
     (case regex_error e brand_pattern of
        Some x \<Rightarrow> Inl x
      | None \<Rightarrow>
          Inr (map (\<lambda>r. kw_row.extend r
                      (kw_cat.fields (if regex_search e brand_pattern (keyword r)
                                      then ''branded'' else ''non-branded'')))
                 rows))"

fun py_truthy :: "pyval \<Rightarrow> bool" where
  "py_truthy PNone = False"
| "py_truthy (PInt i) = (i \<noteq> 0)"
| "py_truthy (PStr s) = (s \<noteq> [])"
| "py_truthy (PList xs) = (xs \<noteq> [])"
| "py_truthy (PDict kvs) = (kvs \<noteq> [])"

text \<open>\<^verbatim>\<open>d.get(key)\<close> on a value: only a dictionary has the method.\<close>

definition py_get :: "pyval \<Rightarrow> string \<Rightarrow> exn + pyval" where
  "py_get v k =
     (case v of
        PDict kvs \<Rightarrow> Inr (case map_of kvs k of None \<Rightarrow> PNone | Some x \<Rightarrow> x)
      | _ \<Rightarrow> Inl (AttributeError ''object has no attribute get''))"

text \<open>
  A bound of the reporting window as the summary names it: a month of the data (or NaT),
  or the value the configuration gave.
\<close>

datatype range_bound = FromData "int option" | FromConfig pyval

record kw_window =
  w_start :: range_bound
  w_end :: range_bound
  w_lo :: "int option"
  w_hi :: "int option"

text \<open>\<^verbatim>\<open>clean_data['YearMonth'].max()\<close>: NaT on an empty frame.\<close>

definition max_month :: "kw_cat list \<Rightarrow> int option" where
  "max_month rows = (if rows = [] then None else Some (Max (set (map year_month rows))))"

text \<open>
  The window: from the configuration when \<^verbatim>\<open>config.get('date_range')\<close> is truthy, otherwise
  the greatest month of the data and the month five before it.
\<close>

definition window_of :: "env \<Rightarrow> config option \<Rightarrow> kw_cat list \<Rightarrow> exn + kw_window" where
  "window_of e config clean_data =
     (let dr = cfg_get config ''date_range'' PNone in
      if py_truthy dr then
        bind_exn (py_get dr ''start'') (\<lambda>start_month.
        bind_exn (py_get dr ''end'') (\<lambda>end_month.
        bind_exn (parse_period e start_month) (\<lambda>lo.
        bind_exn (parse_period e end_month) (\<lambda>hi.
          Inr \<lparr>w_start = FromConfig start_month, w_end = FromConfig end_month,
               w_lo = lo, w_hi = hi\<rparr>))))
      else
        (let end_month = max_month clean_data;
             start_month = map_option (\<lambda>m. m - 5) end_month
         in Inr \<lparr>w_start = FromData start_month, w_end = FromData end_month,
                 w_lo = start_month, w_hi = end_month\<rparr>))"

text \<open>The filter: a comparison with NaT is false.\<close>

definition in_window :: "kw_window \<Rightarrow> int \<Rightarrow> bool" where
  "in_window w m =
     (case (w_lo w, w_hi w) of
        (Some lo, Some hi) \<Rightarrow> lo \<le> m \<and> m \<le> hi
      | _ \<Rightarrow> False)"

definition filter_window :: "kw_window \<Rightarrow> kw_cat list \<Rightarrow> kw_cat list" where
  "filter_window w clean_data = filter (\<lambda>r. in_window w (year_month r)) clean_data"

text \<open>\<^verbatim>\<open>drop_duplicates(subset=...)\<close>: the first row of every key.\<close>

definition drop_duplicates_by :: "('a \<Rightarrow> 'k) \<Rightarrow> 'a list \<Rightarrow> 'a list" where
  "drop_duplicates_by key rows = keep (first_mask [] (map key rows)) rows"

text \<open>\<^verbatim>\<open>groupby(col)['Traffic'].sum()\<close>: int64 sums, in the order of the group labels.\<close>

definition traffic_by :: "(kw_cat \<Rightarrow> string) \<Rightarrow> kw_cat list \<Rightarrow> (string \<times> int) list" where
  "traffic_by label rows =
     map (\<lambda>l. (l, sint (sum_list (map traffic (filter (\<lambda>r. label r = l) rows)))))
       (sort (remdups (map label rows)))"

record keywords_summary =
  total_keywords :: nat
  branded_traffic :: int
  non_branded_traffic :: int
  intent_breakdown :: "(string \<times> int) list"
  range_start :: range_bound
  range_end :: range_bound

definition category_totals :: "kw_cat list \<Rightarrow> (string \<times> int) list" where
  "category_totals filtered_df =
     traffic_by category (drop_duplicates_by (\<lambda>r. (keyword r, year_month r)) filtered_df)"

definition intent_totals :: "kw_cat list \<Rightarrow> (string \<times> int) list" where
  "intent_totals filtered_df =
     traffic_by intent
       (drop_duplicates_by (\<lambda>r. (keyword r, year_month r, intent r)) filtered_df)"

definition keywords_summary_of :: "kw_window \<Rightarrow> kw_cat list \<Rightarrow> keywords_summary" where
  "keywords_summary_of w filtered_df =
     \<lparr>total_keywords = length (remdups (map keyword filtered_df)),
      branded_traffic =
        (case map_of (category_totals filtered_df) ''branded'' of None \<Rightarrow> 0 | Some t \<Rightarrow> t),
      non_branded_traffic =
        (case map_of (category_totals filtered_df) ''non-branded'' of None \<Rightarrow> 0 | Some t \<Rightarrow> t),
      intent_breakdown = intent_totals filtered_df,
      range_start = w_start w,
      range_end = w_end w\<rparr>"

text \<open>\<^verbatim>\<open>str(period)\<close> of a month, and the processed CSV.\<close>

definition fmt_period :: "int \<Rightarrow> string" where
  "fmt_period k = pad_left 4 (show_int (k div 12)) @ ''-'' @ pad_left 2 (show_nat (nat (k mod 12) + 1))"

definition keywords_table :: "kw_cat list \<Rightarrow> content" where
  "keywords_table rows =
     CsvTable [''Keyword'', ''YearMonth'', ''Traffic'', ''Search Volume'', ''Intent'', ''Category'']
       (map (\<lambda>r. [CStr (keyword r), CStr (fmt_period (year_month r)), CInt (sint (traffic r)),
                   CInt (sint (search_volume r)), CStr (intent r), CStr (category r)])
          rows)"

subsection \<open>run_analysis\<close>

definition default_keyword_columns :: pyval where
  "default_keyword_columns =
     PList [PStr ''Keyword'', PStr ''Traffic'', PStr ''Search Volume'', PStr ''Timestamp'',
            PStr ''Keyword Intents'']"

definition default_valid_intents :: pyval where
  "default_valid_intents =
     PList [PStr ''commercial'', PStr ''informational'', PStr ''transactional'',
            PStr ''navigational'']"

definition default_brand_keywords :: pyval where
  "default_brand_keywords = PList [PStr ''flavour blaster'', PStr ''flavourblaster'']"

definition keywords_summary_step ::
    "kw_window \<Rightarrow> kw_cat list \<Rightarrow> keywords_summary run_state \<Rightarrow> exn + keywords_summary run_state" where
  "keywords_summary_step w filtered_df st =
     Inr (st\<lparr>res := (res st)\<lparr>summary := Some (keywords_summary_of w filtered_df)\<rparr>\<rparr>)"

text \<open>
  The body of the \<^verbatim>\<open>try\<close> block: the keywords are classified before the output directory
  is created, the window is computed after it.
\<close>

definition keywords_try ::
    "env \<Rightarrow> string \<Rightarrow> string \<Rightarrow> config option \<Rightarrow> pyval list \<Rightarrow> pyval list \<Rightarrow> pyval
      \<Rightarrow> keywords_summary run_state \<Rightarrow> exn option \<times> keywords_summary run_state" where
  "keywords_try e input_file output_dir config required_cols valid_intents brand_keywords st =
     (case read_csv e input_file of
        Inl x \<Rightarrow> (Some x, st)
      | Inr df \<Rightarrow>
     (case keywords_validate_df_structure e df required_cols of
        Inl x \<Rightarrow> (Some x, st)
      | Inr (is_valid, errs) \<Rightarrow>
          if \<not> is_valid then (None, st\<lparr>res := (res st)\<lparr>errors := errs\<rparr>\<rparr>)
          else
     (case bind_exn (keywords_clean_df e df required_cols valid_intents) (\<lambda>rows.
           bind_exn (brand_pattern_of brand_keywords) (\<lambda>brand_pattern.
             add_category e brand_pattern rows)) of
        Inl x \<Rightarrow> (Some x, st)
      | Inr clean_data \<Rightarrow>
     (case makedirs e output_dir st of
        Inl x \<Rightarrow> (Some x, st)
      | Inr st1 \<Rightarrow>
     (case window_of e config clean_data of
        Inl x \<Rightarrow> (Some x, st1)
      | Inr w \<Rightarrow>
          (let filtered_df = filter_window w clean_data in
           run_steps
             [save_chart e output_dir ''traffic_by_category.png''
                ''Branded vs Non-branded Traffic over time'',
              save_chart e output_dir ''branded_split.png'' ''Branded vs Non-Branded Traffic'',
              save_chart e output_dir ''intent_distribution.png'' ''Traffic by Intent'',
              keywords_summary_step w filtered_df,
              save_table e output_dir ''keyword_analysis.csv'' (keywords_table filtered_df),
              set_success]
             st1))))))"

text \<open>
  \<^verbatim>\<open>run_analysis\<close>: as in the channel script, the two \<^verbatim>\<open>set(config.get(...))\<close> calls stand
  before the \<^verbatim>\<open>try\<close>.
\<close>

definition keywords_run_analysis ::
    "env \<Rightarrow> string \<Rightarrow> string \<Rightarrow> config option \<Rightarrow> fs
      \<Rightarrow> (exn + keywords_summary results) \<times> fs" where
  "keywords_run_analysis e input_file output_dir config f =
     (case py_set (cfg_get config ''required_columns'' default_keyword_columns) of
        Inl x \<Rightarrow> (Inl x, f)
      | Inr rq \<Rightarrow>
     (case py_set (cfg_get config ''valid_intents'' default_valid_intents) of
        Inl x \<Rightarrow> (Inl x, f)
      | Inr vi \<Rightarrow>
          (let required_cols = set_iter (set_hash e) rq;
               valid_intents = set_iter (set_hash e) vi;
               brand_keywords = cfg_get config ''brand_keywords'' default_brand_keywords;
               out = finish (keywords_try e input_file output_dir config required_cols
                               valid_intents brand_keywords \<lparr>res = init_results, fsys = f\<rparr>)
           in (Inr (fst out), snd out))))"

section \<open>Auxiliary definitions for the proofs\<close>

text \<open>Two row selections in sequence are one: the second mask is laid over the rows the first kept.\<close>

fun mask_then :: "bool list \<Rightarrow> bool list \<Rightarrow> bool list" where
  "mask_then [] m2 = []"
| "mask_then (False # m1) m2 = False # mask_then m1 m2"
| "mask_then (True # m1) [] = []"
| "mask_then (True # m1) (b # m2) = b # mask_then m1 m2"

text \<open>One pass of the numeric loop of \<^verbatim>\<open>clean_df\<close> over a column.\<close>

definition norm_col :: "(string \<Rightarrow> flt option) \<Rightarrow> column \<Rightarrow> column" where
  "norm_col parse c = fillna0 (to_numeric_coerce parse c)"

section \<open>Example inputs\<close>

text \<open>
  A small channel export and a run over it, used to instantiate the theorems below: two
  configured channels, a target that differs from another only in case and padding, a
  missing target and a missing count.
\<close>

definition demo_config :: config where
  "demo_config =
     [(''required_columns'', PList [PStr ''Target'', PStr ''Direct'', PStr ''Email'']),
      (''numeric_columns'', PList [PStr ''Direct'', PStr ''Email''])]"

definition demo_frame :: frame where
  "demo_frame =
     [(''Target'', Obj [Some '' Alpha '', Some ''beta'', None, Some ''ALPHA'']),
      (''Direct'', I64 [10, 5, 1, 2]),
      (''Email'', F64 [NaN, Fin 7, Fin 1, Fin 1]),
      (''Notes'', Obj [None, None, None, None])]"

text \<open>
  The library functions of the example runs: dates are read from labels of the form
  \<^verbatim>\<open>YYYY-MM-DD\<close>, a pattern is a list of literal alternatives, nothing fails.
\<close>

definition digits_val :: "string \<Rightarrow> nat" where
  "digits_val s = foldl (\<lambda>a c. 10 * a + (of_char c - 48)) 0 s"

definition demo_parse_date :: "cell \<Rightarrow> timestamp option" where
  "demo_parse_date c =
     (case c of
        CStr s \<Rightarrow>
          (if is_date_core s
           then Some (int (digits_val (take 4 s)), digits_val (take 2 (drop 5 s)),
                      digits_val (take 2 (drop 8 s)), 0)
           else None)
      | _ \<Rightarrow> None)"

definition demo_search :: "string \<Rightarrow> string \<Rightarrow> bool" where
  "demo_search p s = list_ex (\<lambda>alt. sublist (py_lower alt) (py_lower s)) (py_split CHR ''|'' p)"

text \<open>
  A time-series export with a descriptive column and four date columns, one of them all
  zero; the same export with two date columns only; and a keyword export with a duplicate
  key, an intent outside the vocabulary and a month outside the window.
\<close>

definition helium_metric_labels :: "string option list" where
  "helium_metric_labels =
     [Some ''Organic Traffic'', Some ''Organic Keywords'', Some ''Organic Traffic Cost'',
      Some ''Paid Traffic'', Some ''Paid Keywords'', Some ''Paid Traffic Cost'']"

definition helium_frame :: frame where
  "helium_frame =
     [(''Target'', Obj [Some ''x'', Some ''x'', Some ''x'', Some ''x'', Some ''x'', Some ''x'']),
      (''Metric'', Obj helium_metric_labels),
      (''2024-01-15'', I64 [1, 2, 3, 4, 5, 6]),
      (''2024-01-20'', I64 [10, 20, 30, 40, 50, 60]),
      (''2024-03-02'', I64 [100, 200, 300, 400, 500, 600]),
      (''2024-04-02'', I64 [0, 0, 0, 0, 0, 0])]"

definition helium_short_frame :: frame where
  "helium_short_frame =
     [(''Metric'', Obj helium_metric_labels),
      (''2024-01-15'', I64 [1, 2, 3, 4, 5, 6]),
      (''2024-01-20'', I64 [10, 20, 30, 40, 50, 60])]"

definition keyword_frame :: frame where
  "keyword_frame =
     [(''Keyword'', Obj [Some '' Shoes '', Some ''shoes'', Some ''hats'', Some ''old'',
                         Some ''Flavour Blaster kit'']),
      (''Traffic'', I64 [10, 5, 7, 1, 4]),
      (''Search Volume'', I64 [100, 300, 50, 1, 9]),
      (''Timestamp'', Obj [Some ''2024-01-15'', Some ''2024-01-20'', Some ''2024-06-03'',
                           Some ''2023-11-01'', Some ''2024-06-09'']),
      (''Keyword Intents'', Obj [Some ''Commercial, informational'',
                                 Some ''Commercial, informational'',
                                 Some ''navigational,unknown'', Some ''commercial'',
                                 Some ''transactional''])]"

definition demo_files :: "string \<Rightarrow> exn + frame" where
  "demo_files p =
     (if p = ''channels.csv'' then Inr demo_frame
      else if p = ''helium.csv'' then Inr helium_frame
      else if p = ''helium_short.csv'' then Inr helium_short_frame
      else if p = ''keywords.csv'' then Inr keyword_frame
      else Inl (LibraryError ''No such file''))"

definition demo_env :: env where
  "demo_env =
     \<lparr>read_csv = demo_files,
      set_hash = (\<lambda>v. 0),
      parse_num = (\<lambda>s. None),
      io_error = (\<lambda>op. None),
      parse_datetime = demo_parse_date,
      lib_sum = (\<lambda>cs. Inr CNull),
      lib_mean = (\<lambda>cs. NaN),
      float_sum = (\<lambda>xs. NaN),
      regex_error = (\<lambda>p. None),
      regex_search = demo_search,
      parse_period = (\<lambda>v. Inr None)\<rparr>"

definition empty_fs :: fs where
  "empty_fs = \<lparr>dirs = [], files = []\<rparr>"

text \<open>A channel export with the default columns and one negative count.\<close>

definition negative_frame :: frame where
  "negative_frame =
     [(''Target'', Obj [Some ''Acme'']),
      (''Direct'', I64 [- 5]),
      (''Referral'', I64 [0]),
      (''Organic Search'', I64 [0]),
      (''Paid Search'', I64 [0]),
      (''Organic Social'', I64 [0]),
      (''Paid Social'', I64 [0]),
      (''Email'', I64 [0]),
      (''Display Ads'', I64 [0])]"


text \<open>
  The keyword export with the default columns and intents, its rows before the duplicates
  are reconciled, and its cleaned rows.
\<close>

definition keyword_cols :: "pyval list" where
  "keyword_cols =
     [PStr ''Keyword'', PStr ''Traffic'', PStr ''Search Volume'', PStr ''Timestamp'',
      PStr ''Keyword Intents'']"

definition keyword_intents :: "pyval list" where
  "keyword_intents =
     [PStr ''commercial'', PStr ''informational'', PStr ''transactional'',
      PStr ''navigational'']"

definition keyword_rows :: "kw_raw list" where
  "keyword_rows =
     [\<lparr>r_keyword = ''shoes'', r_month = 24288, r_intents = Some ''Commercial, informational'',
       r_traffic = NI 10, r_volume = NI 100\<rparr>,
      \<lparr>r_keyword = ''shoes'', r_month = 24288, r_intents = Some ''Commercial, informational'',
       r_traffic = NI 5, r_volume = NI 300\<rparr>,
      \<lparr>r_keyword = ''hats'', r_month = 24293, r_intents = Some ''navigational,unknown'',
       r_traffic = NI 7, r_volume = NI 50\<rparr>,
      \<lparr>r_keyword = ''old'', r_month = 24286, r_intents = Some ''commercial'',
       r_traffic = NI 1, r_volume = NI 1\<rparr>,
      \<lparr>r_keyword = ''flavour blaster kit'', r_month = 24293, r_intents = Some ''transactional'',
       r_traffic = NI 4, r_volume = NI 9\<rparr>]"

definition keyword_clean :: "kw_row list" where
  "keyword_clean =
     [\<lparr>keyword = ''shoes'', year_month = 24288, traffic = 15, search_volume = 300,
       intent = ''commercial''\<rparr>,
      \<lparr>keyword = ''shoes'', year_month = 24288, traffic = 15, search_volume = 300,
       intent = ''informational''\<rparr>,
      \<lparr>keyword = ''hats'', year_month = 24293, traffic = 7, search_volume = 50,
       intent = ''navigational''\<rparr>,
      \<lparr>keyword = ''flavour blaster kit'', year_month = 24293, traffic = 4, search_volume = 9,
       intent = ''transactional''\<rparr>,
      \<lparr>keyword = ''old'', year_month = 24286, traffic = 1, search_volume = 1,
       intent = ''commercial''\<rparr>]"

text \<open>The cleaned rows with their category, and the run on the keyword export.\<close>

definition keyword_data :: "kw_cat list" where
  "keyword_data =
     [\<lparr>keyword = ''shoes'', year_month = 24288, traffic = 15, search_volume = 300,
       intent = ''commercial'', category = ''non-branded''\<rparr>,
      \<lparr>keyword = ''shoes'', year_month = 24288, traffic = 15, search_volume = 300,
       intent = ''informational'', category = ''non-branded''\<rparr>,
      \<lparr>keyword = ''hats'', year_month = 24293, traffic = 7, search_volume = 50,
       intent = ''navigational'', category = ''non-branded''\<rparr>,
      \<lparr>keyword = ''flavour blaster kit'', year_month = 24293, traffic = 4, search_volume = 9,
       intent = ''transactional'', category = ''branded''\<rparr>,
      \<lparr>keyword = ''old'', year_month = 24286, traffic = 1, search_volume = 1,
       intent = ''commercial'', category = ''non-branded''\<rparr>]"

definition keyword_run :: "(exn + keywords_summary results) \<times> fs" where
  "keyword_run = keywords_run_analysis demo_env ''keywords.csv'' ''out'' None empty_fs"

section \<open>Properties of channels.py\<close>

subsection \<open>Auxiliary facts\<close>

lemma set_set_iter: "set (set_iter h xs) = set xs"
  by (simp add: set_iter_def)

lemma distinct_set_iter: "distinct (set_iter h xs)"
  by (simp add: set_iter_def)

lemma sublist_prepend: "sublist xs ys \<Longrightarrow> sublist xs (zs @ ys)"
proof -
  assume "sublist xs ys"
  then obtain ps ss where "ys = ps @ xs @ ss" by (auto simp: sublist_def)
  then have "zs @ ys = (zs @ ps) @ xs @ ss" by simp
  then show ?thesis unfolding sublist_def by blast
qed

lemma sublist_join_strs: "x \<in> set xs \<Longrightarrow> sublist x (join_strs sep xs)"
proof (induction sep xs rule: join_strs.induct)
  case (1 sep)
  then show ?case by simp
next
  case (2 sep y)
  then show ?case by simp
next
  case (3 sep y z zs)
  show ?case
  proof (cases "x = y")
    case True
    then show ?thesis by (simp add: sublist_append_rightI)
  next
    case False
    with 3 have "sublist x (join_strs sep (z # zs))" by simp
    then have "sublist x ((y @ sep) @ join_strs sep (z # zs))"
      by (rule sublist_prepend)
    then show ?thesis by simp
  qed
qed

lemma channels_validate_missing:
  assumes "list_all is_str required_cols"
      and "missing_cols df required_cols \<noteq> []"
  shows "channels_validate_df_structure df required_cols numeric_cols =
           Inr (False, [''Missing columns: '' @
              join_strs '', '' (map str_of (missing_cols df required_cols))])"
proof -
  have "list_all is_str (missing_cols df required_cols)"
    using assms(1) by (auto simp: missing_cols_def list_all_iff)
  then show ?thesis
    using assms(2)
    by (simp add: channels_validate_df_structure_def validate_columns_def py_join_def bind_exn_def)
qed


lemma first_max_mem: "first_max d = Some kv \<Longrightarrow> kv \<in> set d"
  by (induction d arbitrary: kv) (auto split: option.splits if_splits)

lemma first_max_None: "first_max d = None \<longleftrightarrow> d = []"
  by (cases d) (auto split: option.splits if_splits)

lemma first_max_ge: "first_max d = Some kv \<Longrightarrow> \<forall>x\<in>set d. snd x \<le> snd kv"
proof (induction d arbitrary: kv)
  case Nil
  then show ?case by simp
next
  case (Cons a d)
  show ?case
  proof (cases "first_max d")
    case None
    then have "d = []" by (simp add: first_max_None)
    with Cons.prems None show ?thesis by simp
  next
    case (Some y)
    have tail: "\<forall>z\<in>set d. snd z \<le> snd y"
      using Cons.IH [OF Some] .
    show ?thesis
    proof (cases "snd a < snd y")
      case True
      with Some Cons.prems(1) have "kv = y" by simp
      with True tail show ?thesis by auto
    next
      case False
      with Some Cons.prems(1) have "kv = a" by simp
      with False tail show ?thesis by fastforce
    qed
  qed
qed

lemma assoc_set_fresh: "k \<notin> fst ` set d \<Longrightarrow> assoc_set d k v = d @ [(k, v)]"
  by (induction d) auto

lemma fold_assoc_set_distinct:
  "distinct (map fst cols) \<Longrightarrow> fst ` set d \<inter> fst ` set cols = {} \<Longrightarrow>
   fold (\<lambda>cw d. assoc_set d (fst cw) (g (snd cw))) cols d = d @ map (\<lambda>cw. (fst cw, g (snd cw))) cols"
proof (induction cols arbitrary: d)
  case Nil
  then show ?case by simp
next
  case (Cons a cols)
  have fresh: "fst a \<notin> fst ` set d" using Cons.prems(2) by auto
  have "fst ` set (d @ [(fst a, g (snd a))]) \<inter> fst ` set cols = {}"
    using Cons.prems by auto
  then show ?case
    using Cons.IH [of "d @ [(fst a, g (snd a))]"] Cons.prems(1) fresh
    by (simp add: assoc_set_fresh)
qed

lemma channels_steps_success:
  assumes "finish (run_steps
            [makedirs e output_dir,
             save_chart e output_dir n1 t1,
             save_chart e output_dir n2 t2,
             save_chart e output_dir n3 t3,
             channels_summary_step numeric_cols clean_data,
             save_csv e output_dir n4 clean_data,
             set_success] st) = (r, f')"
      and "success r"
      and "\<not> success (res st)"
  shows "\<exists>s. channels_summary numeric_cols clean_data = Inr s \<and> summary r = Some s"
  using assms
  by (auto simp: finish_def makedirs_def save_chart_def channels_summary_step_def save_csv_def
        set_success_def add_artifact_def bind_exn_def Let_def
      split: sum.splits option.splits)


lemma get_col_val_Inr: "get_col_val df v = Inr c \<Longrightarrow> v = PStr (str_of v) \<and> map_of df (str_of v) = Some c"
  by (cases v) (auto simp: get_col_val_def get_col_def split: option.splits)

lemma int_columns_spec:
  "int_columns df vs = Inr cols \<Longrightarrow>
     map fst cols = map str_of vs \<and> list_all is_str vs \<and>
     (\<forall>cw\<in>set cols. map_of df (fst cw) = Some (I64 (snd cw)))"
proof (induction vs arbitrary: cols)
  case Nil
  then show ?case by simp
next
  case (Cons v vs)
  from Cons.prems obtain c ws rest where
    c: "get_col_val df v = Inr c" and ws: "c = I64 ws" and
    rest: "int_columns df vs = Inr rest" and cols: "cols = (str_of v, ws) # rest"
    by (auto simp: bind_exn_def split: sum.splits column.splits)
  from get_col_val_Inr [OF c] have "is_str v" "map_of df (str_of v) = Some c"
    by (cases v, auto)+
  with Cons.IH [OF rest] ws cols show ?case by simp
qed

lemma distinct_map_str_of: "distinct vs \<Longrightarrow> list_all is_str vs \<Longrightarrow> distinct (map str_of vs)"
proof (induction vs)
  case Nil
  then show ?case by simp
next
  case (Cons v vs)
  have "str_of v \<notin> str_of ` set vs"
  proof
    assume "str_of v \<in> str_of ` set vs"
    then obtain w where w: "w \<in> set vs" "str_of w = str_of v" by auto
    from Cons.prems(2) w(1) have "is_str v" "is_str w" by (auto simp: list_all_iff)
    with w(2) have "w = v" by (cases v; cases w) auto
    with w(1) Cons.prems(1) show False by simp
  qed
  with Cons show ?case by simp
qed

lemma is_str_PStr: "is_str v \<Longrightarrow> v = PStr (str_of v)"
  by (cases v) auto

lemma channels_summary_top:
  assumes "channels_summary numeric_cols clean_data = Inr s"
      and "distinct numeric_cols"
  shows "\<exists>top_ws. PStr (top_channel s) \<in> set numeric_cols \<and>
           map_of clean_data (top_channel s) = Some (I64 top_ws) \<and>
           (\<forall>v\<in>set numeric_cols. \<exists>ws. v = PStr (str_of v) \<and>
               map_of clean_data (str_of v) = Some (I64 ws) \<and>
               column_total ws \<le> column_total top_ws)"
proof -
  from assms(1) obtain cols target where
    cols: "int_columns clean_data numeric_cols = Inr cols" and
    target: "get_col clean_data ''Target'' = Inr target"
    by (auto simp: channels_summary_def bind_exn_def split: sum.splits)
  let ?tot = "map (\<lambda>cw. (fst cw, column_total (snd cw))) cols"
  from int_columns_spec [OF cols] have
    names: "map fst cols = map str_of numeric_cols" and
    strs: "list_all is_str numeric_cols" and
    look: "\<forall>cw\<in>set cols. map_of clean_data (fst cw) = Some (I64 (snd cw))"
    by auto
  have dist: "distinct (map fst cols)"
    using names distinct_map_str_of [OF assms(2) strs] by simp
  have totals: "fold (\<lambda>cw d. assoc_set d (fst cw) (column_total (snd cw))) cols [] = ?tot"
    using fold_assoc_set_distinct [OF dist, of "[]" column_total] by simp
  from assms(1) cols target totals obtain best where
    best: "first_max ?tot = Some best" and top: "top_channel s = fst best"
    by (auto simp: channels_summary_def bind_exn_def Let_def split: option.splits)
  from first_max_mem [OF best] obtain cw where
    cw: "cw \<in> set cols" "best = (fst cw, column_total (snd cw))"
    by auto
  have ge: "column_total (snd x) \<le> column_total (snd cw)" if "x \<in> set cols" for x
    using first_max_ge [OF best] that cw(2) by force
  have topname: "top_channel s = fst cw" using top cw(2) by simp
  have "fst cw \<in> set (map str_of numeric_cols)"
    using cw(1) names by (metis image_eqI list.set_map)
  then obtain v where v: "v \<in> set numeric_cols" "str_of v = fst cw" by auto
  with strs have "v = PStr (fst cw)" using is_str_PStr [of v] by (auto simp: list_all_iff)
  with v(1) have mem: "PStr (top_channel s) \<in> set numeric_cols" using topname by simp
  have each: "\<exists>ws. v = PStr (str_of v) \<and> map_of clean_data (str_of v) = Some (I64 ws) \<and>
                column_total ws \<le> column_total (snd cw)" if "v \<in> set numeric_cols" for v
  proof -
    from that strs have isv: "v = PStr (str_of v)" by (auto simp: list_all_iff intro: is_str_PStr)
    from that have "str_of v \<in> set (map fst cols)" using names by simp
    then obtain x where x: "x \<in> set cols" "fst x = str_of v" by auto
    from look x have "map_of clean_data (str_of v) = Some (I64 (snd x))" by auto
    with isv ge [OF x(1)] show ?thesis by blast
  qed
  from look cw(1) topname have "map_of clean_data (top_channel s) = Some (I64 (snd cw))" by simp
  with mem each show ?thesis by blast
qed


subsection \<open>Missing columns\<close>

text \<open>
  Claim C2. For the channel pipeline, whenever the CSV read from the input file lacks at
  least one required column, \<^verbatim>\<open>run_analysis\<close> returns \<^verbatim>\<open>success = False\<close> with a single error
  string in which every missing column name occurs, no artifact, no summary, and the file
  system it was given, unchanged: the function returns before the output directory is
  created or any file is written. The required columns are column names, that is strings.
\<close>

theorem channels_missing_column_reported:
  assumes "py_set (cfg_get config ''required_columns'' default_required_columns) = Inr rq"
      and "py_set (cfg_get config ''numeric_columns'' default_numeric_columns) = Inr nm"
      and "list_all is_str rq"
      and "read_csv e input_file = Inr df"
      and "PStr c \<in> set rq" and "c \<notin> set (columns df)"
  shows "\<exists>msg. channels_run_analysis e input_file output_dir config f =
            (Inr \<lparr>success = False, errors = [msg], artifacts = [], summary = None\<rparr>, f)
          \<and> (\<forall>c'. PStr c' \<in> set rq \<and> c' \<notin> set (columns df) \<longrightarrow> sublist c' msg)"
proof -
  let ?req = "set_iter (set_hash e) rq"
  let ?miss = "missing_cols df ?req"
  let ?msg = "''Missing columns: '' @ join_strs '', '' (map str_of ?miss)"
  have strs: "list_all is_str ?req"
    using assms(3) by (simp add: list_all_iff set_set_iter)
  have mem: "PStr c' \<in> set ?miss" if "PStr c' \<in> set rq" "c' \<notin> set (columns df)" for c'
    using that by (auto simp: missing_cols_def set_set_iter)
  have ne: "?miss \<noteq> []"
    using mem [OF assms(5,6)] by auto
  have v: "channels_validate_df_structure df ?req (set_iter (set_hash e) nm) = Inr (False, [?msg])"
    by (rule channels_validate_missing [OF strs ne])
  have run: "channels_run_analysis e input_file output_dir config f =
      (Inr \<lparr>success = False, errors = [?msg], artifacts = [], summary = None\<rparr>, f)"
    using assms(1,2,4) v
    by (simp add: channels_run_analysis_def channels_try_def finish_def init_results_def Let_def)
  have named: "sublist c' ?msg" if "PStr c' \<in> set rq" "c' \<notin> set (columns df)" for c'
  proof -
    have "str_of (PStr c') \<in> str_of ` set ?miss"
      using mem [OF that] by (rule imageI)
    then have "c' \<in> set (map str_of ?miss)" by simp
    then have "sublist c' (join_strs '', '' (map str_of ?miss))"
      by (rule sublist_join_strs)
    then show ?thesis
      by (rule sublist_prepend)
  qed
  show ?thesis
    using run named by blast
qed

theorem channels_missing_column_reported_witness:
  "py_set (cfg_get None ''required_columns'' default_required_columns) = Inr
     [PStr ''Target'', PStr ''Direct'', PStr ''Referral'', PStr ''Organic Search'',
      PStr ''Paid Search'', PStr ''Organic Social'', PStr ''Paid Social'',
      PStr ''Email'', PStr ''Display Ads'']
   \<and> read_csv demo_env ''channels.csv'' = Inr demo_frame
   \<and> ''Referral'' \<notin> set (columns demo_frame)
   \<and> (\<exists>msg. channels_run_analysis demo_env ''channels.csv'' ''out'' None empty_fs =
          (Inr \<lparr>success = False, errors = [msg], artifacts = [], summary = None\<rparr>, empty_fs)
        \<and> sublist ''Referral'' msg \<and> sublist ''Paid Social'' msg)"
proof -
  let ?rq = "[PStr ''Target'', PStr ''Direct'', PStr ''Referral'', PStr ''Organic Search'',
      PStr ''Paid Search'', PStr ''Organic Social'', PStr ''Paid Social'',
      PStr ''Email'', PStr ''Display Ads'']"
  have h1: "py_set (cfg_get None ''required_columns'' default_required_columns) = Inr ?rq"
    by (simp add: cfg_get_def default_required_columns_def required_column_names_def)
  obtain nm where h2: "py_set (cfg_get None ''numeric_columns'' default_numeric_columns) = Inr nm"
    by (simp add: cfg_get_def default_numeric_columns_def numeric_column_names_def)
  have h3: "list_all is_str ?rq" by simp
  have h4: "read_csv demo_env ''channels.csv'' = Inr demo_frame"
    by (simp add: demo_env_def demo_files_def)
  have h5: "PStr ''Referral'' \<in> set ?rq" by simp
  have h6: "''Referral'' \<notin> set (columns demo_frame)"
    by (simp add: columns_def demo_frame_def)
  have h7: "PStr ''Paid Social'' \<in> set ?rq \<and> ''Paid Social'' \<notin> set (columns demo_frame)"
    by (simp add: columns_def demo_frame_def)
  from channels_missing_column_reported [OF h1 h2 h3 h4 h5 h6, of "''out''" empty_fs]
  obtain msg where
    "channels_run_analysis demo_env ''channels.csv'' ''out'' None empty_fs =
       (Inr \<lparr>success = False, errors = [msg], artifacts = [], summary = None\<rparr>, empty_fs)"
    "\<forall>c'. PStr c' \<in> set ?rq \<and> c' \<notin> set (columns demo_frame) \<longrightarrow> sublist c' msg"
    by blast
  with h1 h4 h5 h6 h7 show ?thesis by blast
qed

subsection \<open>The top channel\<close>

text \<open>
  Claim C7. For every successful channel run, \<^verbatim>\<open>top_channel\<close> of the summary is one of the
  numeric channel columns, and the total of that column over the cleaned targets is
  greatest among the totals of all numeric channel columns. The total of a column is what
  the script computes, \<^verbatim>\<open>int(clean_data[col].sum())\<close>: the int64 sum of the cleaned column.
\<close>

theorem channels_top_channel_maximal:
  assumes run: "channels_run_analysis e input_file output_dir config f = (Inr r, f')"
      and ok: "success r"
  shows "\<exists>rq nm df clean_data s top_ws.
           py_set (cfg_get config ''required_columns'' default_required_columns) = Inr rq \<and>
           py_set (cfg_get config ''numeric_columns'' default_numeric_columns) = Inr nm \<and>
           read_csv e input_file = Inr df \<and>
           channels_clean_df (parse_num e) df (set_iter (set_hash e) rq)
               (set_iter (set_hash e) nm) = Inr clean_data \<and>
           summary r = Some s \<and>
           PStr (top_channel s) \<in> set nm \<and>
           map_of clean_data (top_channel s) = Some (I64 top_ws) \<and>
           (\<forall>v\<in>set nm. \<exists>ws. v = PStr (str_of v) \<and>
               map_of clean_data (str_of v) = Some (I64 ws) \<and>
               column_total ws \<le> column_total top_ws)"
proof -
  from run obtain rq nm where
    rq: "py_set (cfg_get config ''required_columns'' default_required_columns) = Inr rq" and
    nm: "py_set (cfg_get config ''numeric_columns'' default_numeric_columns) = Inr nm"
    by (auto simp: channels_run_analysis_def split: sum.splits)
  let ?req = "set_iter (set_hash e) rq"
  let ?num = "set_iter (set_hash e) nm"
  let ?st = "\<lparr>res = (init_results :: channel_summary results), fsys = f\<rparr>"
  from run rq nm have fin:
    "finish (channels_try e input_file output_dir ?req ?num ?st) = (r, f')"
    by (simp add: channels_run_analysis_def Let_def prod_eq_iff)
  from fin ok obtain df where df: "read_csv e input_file = Inr df"
    by (auto simp: channels_try_def finish_def init_results_def split: sum.splits)
  from fin ok df obtain errs where
    v: "channels_validate_df_structure df ?req ?num = Inr (True, errs)"
    by (auto simp: channels_try_def finish_def init_results_def split: sum.splits if_splits)
  from fin ok df v obtain clean_data where
    cd: "channels_clean_df (parse_num e) df ?req ?num = Inr clean_data"
    by (auto simp: channels_try_def finish_def init_results_def split: sum.splits)
  from fin df v cd have steps: "finish (run_steps
            [makedirs e output_dir,
             save_chart e output_dir ''traffic_by_channel.png'' ''Traffic by Channel'',
             save_chart e output_dir ''channel_mix_by_target.png'' ''Channel Mix by Target'',
             save_chart e output_dir ''channel_comparison.png''
               ''Traffic Comparison by Channel and Target'',
             channels_summary_step ?num clean_data,
             save_csv e output_dir ''channel_analysis.csv'' clean_data,
             set_success] ?st) = (r, f')"
    by (simp add: channels_try_def)
  have "\<not> success (res ?st)" by (simp add: init_results_def)
  from channels_steps_success [OF steps ok this] obtain s where
    s: "channels_summary ?num clean_data = Inr s" "summary r = Some s" by blast
  from channels_summary_top [OF s(1) distinct_set_iter] obtain top_ws where
    "PStr (top_channel s) \<in> set ?num"
    "map_of clean_data (top_channel s) = Some (I64 top_ws)"
    "\<forall>v\<in>set ?num. \<exists>ws. v = PStr (str_of v) \<and>
               map_of clean_data (str_of v) = Some (I64 ws) \<and>
               column_total ws \<le> column_total top_ws"
    by blast
  with rq nm df cd s(2) show ?thesis
    unfolding set_set_iter by blast
qed

theorem channels_top_channel_maximal_witness:
  "\<exists>r f'. channels_run_analysis demo_env ''channels.csv'' ''out'' (Some demo_config) empty_fs
             = (Inr r, f')
     \<and> success r
     \<and> (\<exists>clean_data s top_ws.
           summary r = Some s \<and> top_channel s = ''Direct'' \<and>
           map_of clean_data (top_channel s) = Some (I64 top_ws) \<and>
           (\<exists>ws. map_of clean_data ''Email'' = Some (I64 ws) \<and>
                 column_total ws \<le> column_total top_ws))"
proof -
  let ?r = "\<lparr>success = True, errors = [],
         artifacts =
           [\<lparr>a_name = ''traffic_by_channel.png'', a_type = ''chart'',
               a_path = ''out/traffic_by_channel.png''\<rparr>,
            \<lparr>a_name = ''channel_mix_by_target.png'', a_type = ''chart'',
               a_path = ''out/channel_mix_by_target.png''\<rparr>,
            \<lparr>a_name = ''channel_comparison.png'', a_type = ''chart'',
               a_path = ''out/channel_comparison.png''\<rparr>,
            \<lparr>a_name = ''channel_analysis.csv'', a_type = ''csv'',
               a_path = ''out/channel_analysis.csv''\<rparr>],
         summary =
           Some
            \<lparr>total_traffic = 22,
               channel_breakdown = [(''Direct'', 15), (''Email'', 7)],
               target_breakdown = [(CStr ''alpha'', 10), (CStr ''beta'', 12)],
               top_channel = ''Direct'',
               top_target = Some (CStr ''beta'')\<rparr>\<rparr>"
  let ?f = "\<lparr>dirs = [''out''],
     files =
       [(''out/traffic_by_channel.png'', Chart ''Traffic by Channel''),
        (''out/channel_mix_by_target.png'', Chart ''Channel Mix by Target''),
        (''out/channel_comparison.png'', Chart ''Traffic Comparison by Channel and Target''),
        (''out/channel_analysis.csv'',
         Csv [(''Target'', Obj [Some ''alpha'', Some ''beta'']),
              (''Direct'', I64 [10, 5]), (''Email'', I64 [0, 7])])]\<rparr>"
  have run: "channels_run_analysis demo_env ''channels.csv'' ''out'' (Some demo_config) empty_fs
               = (Inr ?r, ?f)"
    by code_simp
  have ok: "success ?r" by simp
  have nm: "py_set (cfg_get (Some demo_config) ''numeric_columns'' default_numeric_columns)
              = Inr [PStr ''Direct'', PStr ''Email'']"
    by (simp add: cfg_get_def demo_config_def)
  from channels_top_channel_maximal [OF run ok] nm
  obtain clean_data s top_ws where
    s: "summary ?r = Some s" and
    top: "map_of clean_data (top_channel s) = Some (I64 top_ws)" and
    all: "\<forall>v\<in>set [PStr ''Direct'', PStr ''Email'']. \<exists>ws. v = PStr (str_of v) \<and>
               map_of clean_data (str_of v) = Some (I64 ws) \<and>
               column_total ws \<le> column_total top_ws"
    by auto
  from s have "top_channel s = ''Direct''" by auto
  moreover from all have "\<exists>ws. map_of clean_data ''Email'' = Some (I64 ws) \<and>
                 column_total ws \<le> column_total top_ws"
    by simp
  ultimately show ?thesis
    using run ok s top by blast
qed

subsection \<open>Row selection and string normalisation\<close>

lemma keep_Nil [simp]: "keep [] xs = []" "keep m [] = []"
  by (simp_all add: keep_def)

lemma keep_Cons [simp]: "keep (b # m) (x # xs) = (if b then x # keep m xs else keep m xs)"
  by (simp add: keep_def)

lemma keep_map_pred: "keep (map P xs) xs = filter P xs"
  by (induction xs) auto

lemma keep_map: "keep m (map f xs) = map f (keep m xs)"
proof (induction m arbitrary: xs)
  case Nil
  then show ?case by simp
next
  case (Cons b m)
  then show ?case by (cases xs) auto
qed

lemma keep_mask_then: "keep m2 (keep m1 xs) = keep (mask_then m1 m2) xs"
proof (induction m1 m2 arbitrary: xs rule: mask_then.induct)
  case (1 m2)
  then show ?case by simp
next
  case (2 m1 m2)
  then show ?case by (cases xs) auto
next
  case (3 m1)
  then show ?case by simp
next
  case (4 m1 b m2)
  then show ?case by (cases xs) auto
qed

lemma keep_first_mask:
  "distinct (keep (first_mask seen xs) xs) \<and> set (keep (first_mask seen xs) xs) \<inter> set seen = {}
   \<and> set (keep (first_mask seen xs) xs) \<subseteq> set xs"
proof (induction xs arbitrary: seen)
  case Nil
  then show ?case by simp
next
  case (Cons x xs)
  from Cons [of "x # seen"] show ?case by auto
qed

lemma of_char_char_of_small: "n < 256 \<Longrightarrow> of_char (char_of (n::nat)) = n"
  by (simp add: of_char_of)

lemma is_upper_lower_char: "\<not> is_upper (lower_char c)"
  by (auto simp: lower_char_def is_upper_def Let_def of_char_char_of_small)

lemma lower_char_idem: "lower_char (lower_char c) = lower_char c"
  using is_upper_lower_char [of c] by (simp add: lower_char_def [of "lower_char c"])

lemma py_lower_idem: "py_lower (py_lower s) = py_lower s"
  by (simp add: py_lower_def lower_char_idem)

lemma is_space_lower_char: "is_space (lower_char c) = is_space c"
  by (auto simp: lower_char_def is_upper_def is_space_def Let_def of_char_char_of_small)

lemma dropWhile_space_lower:
  "dropWhile is_space (map lower_char s) = map lower_char (dropWhile is_space s)"
  by (induction s) (auto simp: is_space_lower_char)

lemma py_strip_py_lower: "py_strip (py_lower s) = py_lower (py_strip s)"
  by (simp add: py_strip_def py_lower_def dropWhile_space_lower rev_map)

lemma dropWhile_rev_prefix:
  "\<exists>c. a = rev (dropWhile P (rev a)) @ c"
proof -
  have "a = rev (takeWhile P (rev a) @ dropWhile P (rev a))"
    by (simp only: takeWhile_dropWhile_id rev_rev_ident)
  also have "\<dots> = rev (dropWhile P (rev a)) @ rev (takeWhile P (rev a))"
    by (simp only: rev_append)
  finally show ?thesis by blast
qed

lemma py_strip_idem: "py_strip (py_strip s) = py_strip s"
proof -
  let ?a = "dropWhile is_space s"
  let ?b = "rev (dropWhile is_space (rev ?a))"
  have b: "py_strip s = ?b" by (simp add: py_strip_def)
  have front: "dropWhile is_space ?b = ?b"
  proof (cases "?b = []")
    case True
    then show ?thesis by (metis dropWhile.simps(1))
  next
    case False
    obtain c where c: "?a = ?b @ c" using dropWhile_rev_prefix [of ?a is_space] by blast
    with False have "hd ?b = hd ?a" by (metis hd_append2)
    moreover have "?a \<noteq> []" using c False by (metis append_is_Nil_conv)
    then have "\<not> is_space (hd ?a)" by (rule hd_dropWhile)
    ultimately have "\<not> is_space (hd ?b)" by simp
    then show ?thesis by (simp add: dropWhile_eq_self_iff)
  qed
  have rear: "dropWhile is_space (rev ?b) = rev ?b"
    by (simp add: dropWhile_idem)
  show ?thesis
    unfolding b unfolding py_strip_def [of ?b] using front rear by simp
qed

lemma clean_string_fixed:
  "py_lower (py_lower (py_strip s)) = py_lower (py_strip s)"
  "py_strip (py_lower (py_strip s)) = py_lower (py_strip s)"
  by (simp_all add: py_lower_idem py_strip_py_lower py_strip_idem)

lemma get_col_Inr: "get_col df c = Inr col \<longleftrightarrow> map_of df c = Some col"
  by (auto simp: get_col_def split: option.splits)

lemma map_of_set_col: "map_of (set_col df c v) c' = (if c' = c then Some v else map_of df c')"
  by (induction df c v rule: set_col.induct) auto

lemma map_of_keep_rows: "map_of (keep_rows m df) c = map_option (keep_col m) (map_of df c)"
  by (induction df) (auto simp: keep_rows_def)

lemma norm_col_idem: "norm_col parse (norm_col parse c) = norm_col parse c"
  by (cases c) (auto simp: norm_col_def fillna0_def to_numeric_coerce_def)

lemma coerce_numeric_cols_map_of:
  "coerce_numeric_cols parse vs df = Inr df' \<Longrightarrow>
     map_of df' c = (if PStr c \<in> set vs then map_option (norm_col parse) (map_of df c)
                     else map_of df c)"
proof (induction vs arbitrary: df)
  case Nil
  then show ?case by simp
next
  case (Cons v vs)
  from Cons.prems obtain col where
    col: "get_col_val df v = Inr col" and
    rest: "coerce_numeric_cols parse vs (set_col df (str_of v) (norm_col parse col)) = Inr df'"
    by (auto simp: bind_exn_def norm_col_def split: sum.splits)
  from get_col_val_Inr [OF col] have v: "v = PStr (str_of v)" and
    look: "map_of df (str_of v) = Some col" by auto
  show ?case
  proof (cases "c = str_of v")
    case True
    with Cons.IH [OF rest] look v show ?thesis
      by (auto simp: map_of_set_col norm_col_idem)
  next
    case False
    then have "PStr c \<noteq> v" using v by (metis pyval.inject(2))
    with Cons.IH [OF rest] False show ?thesis
      by (auto simp: map_of_set_col)
  qed
qed

lemma select_cols_map_of:
  "select_cols df vs = Inr sel \<Longrightarrow>
     map_of sel c = (if PStr c \<in> set vs then map_of df c else None)"
proof (induction vs arbitrary: sel)
  case Nil
  then show ?case by simp
next
  case (Cons v vs)
  from Cons.prems obtain col rest where
    col: "get_col_val df v = Inr col" and
    rest: "select_cols df vs = Inr rest" and sel: "sel = (str_of v, col) # rest"
    by (auto simp: bind_exn_def split: sum.splits)
  from get_col_val_Inr [OF col] have v: "v = PStr (str_of v)" and
    look: "map_of df (str_of v) = Some col" by auto
  show ?case
  proof (cases "c = str_of v")
    case True
    with sel look v show ?thesis by auto
  next
    case False
    then have "PStr c \<noteq> v" using v by (metis pyval.inject(2))
    with Cons.IH [OF rest] False sel show ?thesis by auto
  qed
qed

lemma channels_astype_map_of:
  "channels_astype nums df = Inr df' \<Longrightarrow> map_of df c = Some col \<Longrightarrow>
     (if PStr c \<in> set nums then \<exists>col'. astype_int64 col = Inr col' \<and> map_of df' c = Some col'
      else map_of df' c = Some col)"
proof (induction df arbitrary: df')
  case Nil
  then show ?case by simp
next
  case (Cons a df)
  obtain n x where a: "a = (n, x)" by (cases a)
  from Cons.prems(1) a obtain x' rest where
    x': "(if PStr n \<in> set nums then astype_int64 x else Inr x) = Inr x'" and
    rest: "channels_astype nums df = Inr rest" and df': "df' = (n, x') # rest"
    by (auto simp: bind_exn_def split: sum.splits)
  show ?case
  proof (cases "c = n")
    case True
    with Cons.prems(2) a have "col = x" by simp
    with True x' df' show ?thesis by (auto split: if_splits)
  next
    case False
    with Cons.prems(2) a have "map_of df c = Some col" by simp
    from Cons.IH [OF rest this] False df' show ?thesis by auto
  qed
qed

lemma channels_numeric_errors_Nil:
  "channels_numeric_errors df vs = Inr [] \<Longrightarrow>
     \<forall>v\<in>set vs. \<exists>c. get_col_val df v = Inr c \<and> is_numeric_dtype c"
proof (induction vs)
  case Nil
  then show ?case by simp
next
  case (Cons v vs)
  from Cons.prems obtain c errs where
    c: "get_col_val df v = Inr c" and errs: "channels_numeric_errors df vs = Inr errs" and
    e: "(if \<not> is_numeric_dtype c then (str_of v @ '' column must contain only numbers.'') # errs
         else errs) = []"
    by (auto simp: bind_exn_def split: sum.splits)
  from e have "is_numeric_dtype c" "errs = []" by (auto split: if_splits)
  with Cons.IH errs c show ?case by auto
qed

lemma channels_validate_True:
  assumes "channels_validate_df_structure df required_cols numeric_cols = Inr (True, errs)"
  shows "set numeric_cols \<subseteq> set required_cols"
    and "\<forall>v\<in>set numeric_cols. \<exists>c. get_col_val df v = Inr c \<and> is_numeric_dtype c"
proof -
  from assms have sub: "set numeric_cols \<subseteq> set required_cols" and
    ne: "channels_numeric_errors df numeric_cols = Inr []"
    by (auto simp: channels_validate_df_structure_def bind_exn_def py_join_def
        split: if_splits sum.splits)
  show "set numeric_cols \<subseteq> set required_cols" by (rule sub)
  show "\<forall>v\<in>set numeric_cols. \<exists>c. get_col_val df v = Inr c \<and> is_numeric_dtype c"
    by (rule channels_numeric_errors_Nil [OF ne])
qed

lemma flt_to_int64_fill: "flt_to_int64 (if x = NaN then Fin 0 else x) = (if x = NaN then 0 else flt_to_int64 x)"
  by (simp add: float_to_int64_def trunc_rat_def)

lemma astype_keep_norm:
  assumes "is_numeric_dtype c"
      and "astype_int64 (keep_col m (norm_col parse c)) = Inr col'"
  shows "case c of
           I64 ws \<Rightarrow> col' = I64 (keep m ws)
         | F64 xs \<Rightarrow> col' = I64 (keep m (map (\<lambda>x. if x = NaN then 0 else flt_to_int64 x) xs))
         | Obj _ \<Rightarrow> False"
proof (cases c)
  case (I64 ws)
  with assms(2) show ?thesis
    by (simp add: norm_col_def to_numeric_coerce_def fillna0_def astype_int64_def)
next
  case (F64 xs)
  with assms(2) have "col' = I64 (map flt_to_int64 (keep m (map (\<lambda>x. if x = NaN then Fin 0 else x) xs)))"
    by (simp add: norm_col_def to_numeric_coerce_def fillna0_def astype_int64_def split: if_splits)
  then have "col' = I64 (keep m (map (\<lambda>x. flt_to_int64 (if x = NaN then Fin 0 else x)) xs))"
    by (simp add: keep_map [symmetric] comp_def)
  with F64 show ?thesis by (simp add: flt_to_int64_fill)
next
  case (Obj xs)
  with assms(1) show ?thesis by (simp add: is_numeric_dtype_def)
qed


subsection \<open>The cleaned channel frame\<close>

text \<open>
  Claim C3, as the code has it. For every channel frame that passes validation and that
  \<^verbatim>\<open>clean_df\<close> cleans without raising, the cleaned frame is a selection \<open>m\<close> of the rows of
  the input: its \<^verbatim>\<open>Target\<close> column holds the trimmed, lower-cased input targets of the kept
  rows, which are pairwise distinct, present, non-empty, and fixed points of trimming and
  of lower-casing; every numeric channel column holds int64 values, the input value of each
  kept row with a missing value (NaN) replaced by zero and a float truncated. Nothing
  makes the values non-negative: see the counterexample that follows.
\<close>

theorem channels_clean_df_invariants:
  assumes valid: "channels_validate_df_structure df required_cols numeric_cols = Inr (True, errs)"
      and clean: "channels_clean_df parse df required_cols numeric_cols = Inr cleaned"
  shows "\<exists>raw_targets m targets.
      map_of df ''Target'' = Some (Obj raw_targets) \<and>
      map_of cleaned ''Target'' = Some (Obj targets) \<and>
      targets = keep m (map (map_option (\<lambda>s. py_lower (py_strip s))) raw_targets) \<and>
      distinct targets \<and>
      (\<forall>t\<in>set targets. \<exists>s. t = Some s \<and> s \<noteq> [] \<and> py_lower s = s \<and> py_strip s = s) \<and>
      (\<forall>v\<in>set numeric_cols. \<exists>name. v = PStr name \<and>
          (case map_of df name of
             Some (I64 ws) \<Rightarrow> map_of cleaned name = Some (I64 (keep m ws))
           | Some (F64 xs) \<Rightarrow>
               map_of cleaned name =
                 Some (I64 (keep m (map (\<lambda>x. if x = NaN then 0 else flt_to_int64 x) xs)))
           | _ \<Rightarrow> False))"
proof -
  from clean obtain sel target target' df1 t1 t2 t3 where
    sel: "select_cols df required_cols = Inr sel" and
    tg: "get_col sel ''Target'' = Inr target" and
    st: "str_strip_lower target = Inr target'" and
    co: "coerce_numeric_cols parse numeric_cols (set_col sel ''Target'' target') = Inr df1" and
    t1: "get_col df1 ''Target'' = Inr t1" and
    t2: "get_col (keep_rows (notna_mask t1) df1) ''Target'' = Inr t2" and
    t3: "get_col (keep_rows (ne_str_mask [] t2) (keep_rows (notna_mask t1) df1)) ''Target'' = Inr t3" and
    fin: "channels_astype numeric_cols
            (keep_rows (first_occurrence_mask t3)
              (keep_rows (ne_str_mask [] t2) (keep_rows (notna_mask t1) df1))) = Inr cleaned"
    unfolding channels_clean_df_def bind_exn_def by (auto split: sum.splits)
  from st obtain raw where raw: "target = Obj raw"
      and target': "target' = Obj (map (map_option (\<lambda>s. py_lower (py_strip s))) raw)"
    by (auto simp: str_strip_lower_def split: column.splits)
  let ?xs = "map (map_option (\<lambda>s. py_lower (py_strip s))) raw"
  from tg have selT: "map_of sel ''Target'' = Some target" by (simp add: get_col_Inr)
  with select_cols_map_of [OF sel, of "''Target''"] have
    reqT: "PStr ''Target'' \<in> set required_cols" and dfT: "map_of df ''Target'' = Some (Obj raw)"
    using raw by (auto split: if_splits)
  note num = channels_validate_True [OF valid]
  have notnum: "PStr ''Target'' \<notin> set numeric_cols"
  proof
    assume "PStr ''Target'' \<in> set numeric_cols"
    with num(2) obtain c where "get_col_val df (PStr ''Target'') = Inr c" "is_numeric_dtype c"
      by blast
    with dfT show False by (auto simp: get_col_val_def get_col_def is_numeric_dtype_def)
  qed
  have df1T: "map_of df1 ''Target'' = Some (Obj ?xs)"
    using coerce_numeric_cols_map_of [OF co, of "''Target''"] notnum target'
    by (simp add: map_of_set_col)
  with t1 have t1eq: "t1 = Obj ?xs" by (simp add: get_col_Inr)
  let ?m1 = "notna_mask t1"
  let ?m2 = "ne_str_mask [] t2"
  let ?m3 = "first_occurrence_mask t3"
  let ?mask = "mask_then (mask_then ?m1 ?m2) ?m3"
  have m1: "?m1 = map (\<lambda>x. x \<noteq> None) ?xs" by (simp add: t1eq notna_mask_def)
  from t2 df1T have t2eq: "t2 = Obj (keep ?m1 ?xs)"
    by (simp add: get_col_Inr map_of_keep_rows)
  have k1: "keep ?m1 ?xs = filter (\<lambda>x. x \<noteq> None) ?xs"
    unfolding m1 by (rule keep_map_pred)
  have m2: "?m2 = map (\<lambda>x. x \<noteq> Some []) (keep ?m1 ?xs)" by (simp add: t2eq ne_str_mask_def)
  from t3 df1T have t3eq: "t3 = Obj (keep ?m2 (keep ?m1 ?xs))"
    by (simp add: get_col_Inr map_of_keep_rows)
  have k2: "keep ?m2 (keep ?m1 ?xs) = filter (\<lambda>x. x \<noteq> Some []) (filter (\<lambda>x. x \<noteq> None) ?xs)"
    unfolding m2 k1 by (rule keep_map_pred)
  have m3: "?m3 = first_mask [] (keep ?m2 (keep ?m1 ?xs))" by (simp add: t3eq first_occurrence_mask_def)
  let ?targets = "keep ?m3 (keep ?m2 (keep ?m1 ?xs))"
  have rows: "keep ?m3 (keep ?m2 (keep ?m1 ys)) = keep ?mask ys" for ys :: "'b list"
    by (simp add: keep_mask_then)
  have col_rows: "keep_col ?m3 (keep_col ?m2 (keep_col ?m1 c)) = keep_col ?mask c" for c
    by (cases c) (simp_all add: rows)
  let ?df4 = "keep_rows ?m3 (keep_rows ?m2 (keep_rows ?m1 df1))"
  have df4: "map_of ?df4 c = map_option (keep_col ?mask) (map_of df1 c)" for c
    by (cases "map_of df1 c") (simp_all add: map_of_keep_rows col_rows)
  have df4T: "map_of ?df4 ''Target'' = Some (Obj ?targets)"
    by (simp add: map_of_keep_rows df1T)
  from channels_astype_map_of [OF fin df4T] notnum
  have clT: "map_of cleaned ''Target'' = Some (Obj ?targets)" by simp
  have dist: "distinct ?targets"
    unfolding m3 using keep_first_mask [of "[]" "keep ?m2 (keep ?m1 ?xs)"] by simp
  have sub: "set ?targets \<subseteq> set (keep ?m2 (keep ?m1 ?xs))"
    unfolding m3 using keep_first_mask [of "[]" "keep ?m2 (keep ?m1 ?xs)"] by simp
  have each: "\<exists>s. t = Some s \<and> s \<noteq> [] \<and> py_lower s = s \<and> py_strip s = s"
    if "t \<in> set ?targets" for t
  proof -
    from that sub have "t \<in> set (filter (\<lambda>x. x \<noteq> Some []) (filter (\<lambda>x. x \<noteq> None) ?xs))"
      unfolding k2 by blast
    then have t: "t \<noteq> Some []" "t \<noteq> None" "t \<in> set ?xs" by auto
    then obtain r s0 where "r \<in> set raw" "t = map_option (\<lambda>s. py_lower (py_strip s)) r"
      by auto
    with t(2) obtain s0 where "t = Some (py_lower (py_strip s0))"
      by (cases r) auto
    with t(1) show ?thesis by (simp add: clean_string_fixed)
  qed
  have numeric: "\<exists>name. v = PStr name \<and>
          (case map_of df name of
             Some (I64 ws) \<Rightarrow> map_of cleaned name = Some (I64 (keep ?mask ws))
           | Some (F64 xs) \<Rightarrow>
               map_of cleaned name =
                 Some (I64 (keep ?mask (map (\<lambda>x. if x = NaN then 0 else flt_to_int64 x) xs)))
           | _ \<Rightarrow> False)" if v: "v \<in> set numeric_cols" for v
  proof -
    from num(2) v obtain c where c: "get_col_val df v = Inr c" and isnum: "is_numeric_dtype c"
      by blast
    from get_col_val_Inr [OF c] have vn: "v = PStr (str_of v)" and
      look: "map_of df (str_of v) = Some c" by auto
    let ?n = "str_of v"
    have inreq: "PStr ?n \<in> set required_cols" using v vn num(1) by auto
    have inn: "PStr ?n \<in> set numeric_cols" using v vn by simp
    from notnum inn have neT: "?n \<noteq> ''Target''" by auto
    have "map_of sel ?n = Some c"
      using select_cols_map_of [OF sel, of ?n] inreq look by simp
    then have "map_of df1 ?n = Some (norm_col parse c)"
      using coerce_numeric_cols_map_of [OF co, of ?n] inn neT by (simp add: map_of_set_col)
    then have "map_of ?df4 ?n = Some (keep_col ?mask (norm_col parse c))"
      by (simp add: df4)
    from channels_astype_map_of [OF fin this] inn obtain col' where
      col': "astype_int64 (keep_col ?mask (norm_col parse c)) = Inr col'" and
      cl: "map_of cleaned ?n = Some col'"
      by auto
    from astype_keep_norm [OF isnum col'] look cl vn show ?thesis
      by (cases c) auto
  qed
  have tk: "?targets = keep ?mask ?xs" by (rule rows)
  show ?thesis
  proof (intro exI conjI)
    show "map_of df ''Target'' = Some (Obj raw)" by (rule dfT)
    show "map_of cleaned ''Target'' = Some (Obj ?targets)" by (rule clT)
    show "?targets = keep ?mask ?xs" by (rule tk)
    show "distinct ?targets" by (rule dist)
    show "\<forall>t\<in>set ?targets. \<exists>s. t = Some s \<and> s \<noteq> [] \<and> py_lower s = s \<and> py_strip s = s"
      using each by blast
    show "\<forall>v\<in>set numeric_cols. \<exists>name. v = PStr name \<and>
          (case map_of df name of
             Some (I64 ws) \<Rightarrow> map_of cleaned name = Some (I64 (keep ?mask ws))
           | Some (F64 xs) \<Rightarrow>
               map_of cleaned name =
                 Some (I64 (keep ?mask (map (\<lambda>x. if x = NaN then 0 else flt_to_int64 x) xs)))
           | _ \<Rightarrow> False)"
      using numeric by blast
  qed
qed

theorem channels_clean_df_invariants_witness:
  "channels_validate_df_structure demo_frame
       [PStr ''Target'', PStr ''Direct'', PStr ''Email''] [PStr ''Direct'', PStr ''Email'']
     = Inr (True, [])
   \<and> channels_clean_df (parse_num demo_env) demo_frame
       [PStr ''Target'', PStr ''Direct'', PStr ''Email''] [PStr ''Direct'', PStr ''Email'']
     = Inr [(''Target'', Obj [Some ''alpha'', Some ''beta'']),
            (''Direct'', I64 [10, 5]), (''Email'', I64 [0, 7])]
   \<and> (\<exists>m. [10, 5] = keep m [10, 5, 1, 2 :: int64] \<and>
            [0, 7] = keep m (map (\<lambda>x. if x = NaN then 0 else flt_to_int64 x)
                               [NaN, Fin 7, Fin 1, Fin 1]))"
proof -
  let ?req = "[PStr ''Target'', PStr ''Direct'', PStr ''Email'']"
  let ?num = "[PStr ''Direct'', PStr ''Email'']"
  let ?cleaned = "[(''Target'', Obj [Some ''alpha'', Some ''beta'']),
            (''Direct'', I64 [10, 5]), (''Email'', I64 [0, 7])]"
  have valid: "channels_validate_df_structure demo_frame ?req ?num = Inr (True, [])"
    by code_simp
  have clean: "channels_clean_df (parse_num demo_env) demo_frame ?req ?num = Inr ?cleaned"
    by code_simp
  from channels_clean_df_invariants [OF valid clean] obtain m where
    m: "\<forall>v\<in>set ?num. \<exists>name. v = PStr name \<and>
          (case map_of demo_frame name of
             Some (I64 ws) \<Rightarrow> map_of ?cleaned name = Some (I64 (keep m ws))
           | Some (F64 xs) \<Rightarrow>
               map_of ?cleaned name =
                 Some (I64 (keep m (map (\<lambda>x. if x = NaN then 0 else flt_to_int64 x) xs)))
           | _ \<Rightarrow> False)"
    by blast
  from m have "[10, 5] = keep m [10, 5, 1, 2 :: int64]"
    by (simp add: demo_frame_def)
  moreover from m have "[0, 7] = keep m (map (\<lambda>x. if x = NaN then 0 else flt_to_int64 x)
                               [NaN, Fin 7, Fin 1, Fin 1])"
    by (simp add: demo_frame_def)
  ultimately show ?thesis using valid clean by blast
qed

text \<open>
  Claim C3, as stated, fails: an export with the default columns whose \<^verbatim>\<open>Direct\<close> count is
  \<open>-5\<close> passes validation, and \<^verbatim>\<open>clean_df\<close> returns the count as it is.
\<close>

theorem channels_clean_negative_counterexample:
  "channels_validate_df_structure negative_frame required_column_names numeric_column_names
     = Inr (True, [])
   \<and> channels_clean_df (parse_num demo_env) negative_frame required_column_names
         numeric_column_names
     = Inr [(''Target'', Obj [Some ''acme'']),
            (''Direct'', I64 [- 5]),
            (''Referral'', I64 [0]),
            (''Organic Search'', I64 [0]),
            (''Paid Search'', I64 [0]),
            (''Organic Social'', I64 [0]),
            (''Paid Social'', I64 [0]),
            (''Email'', I64 [0]),
            (''Display Ads'', I64 [0])]
   \<and> sint (- 5 :: int64) < 0"
  by code_simp

section \<open>Properties of helium.py\<close>

subsection \<open>The minimum of three date columns\<close>

text \<open>
  Claim C9. For the time-series pipeline, every input with fewer than 3 columns whose
  names match \<^verbatim>\<open>YYYY-MM-DD\<close> fails validation with the message that reports the count found,
  and \<^verbatim>\<open>run_analysis\<close> returns \<^verbatim>\<open>success = False\<close> with the validator's messages, no artifact
  and the file system untouched. The check stands beside the 6-row and \<^verbatim>\<open>Metric\<close> checks:
  an input that meets those two is rejected for the date columns alone.
\<close>

theorem helium_few_date_columns_rejected:
  assumes "read_csv e input_file = Inr df"
      and "length (date_columns df) < 3"
  shows "\<exists>errs.
           helium_validate_df_structure (set_hash e) df = Inr (False, errs)
         \<and> (''File must have at least 3 date columns in format 'YYYY-MM-DD', but found ''
               @ show_nat (length (date_columns df)) @ ''.'') \<in> set errs
         \<and> helium_run_analysis e input_file output_dir config f =
             (Inr \<lparr>success = False, errors = errs, artifacts = [], summary = None\<rparr>, f)
         \<and> (nrows df = 6 \<and> ''Metric'' \<in> set (columns df) \<longrightarrow>
              errs = [''File must have at least 3 date columns in format 'YYYY-MM-DD', but found ''
                        @ show_nat (length (date_columns df)) @ ''.''])"
proof -
  let ?msg = "''File must have at least 3 date columns in format 'YYYY-MM-DD', but found ''
               @ show_nat (length (date_columns df)) @ ''.''"
  let ?errs = "helium_shape_errors df"
  have mem: "?msg \<in> set ?errs"
    using assms(2) by (simp add: helium_shape_errors_def)
  then have ne: "?errs \<noteq> []" by auto
  then have v: "helium_validate_df_structure (set_hash e) df = Inr (False, ?errs)"
    by (simp add: helium_validate_df_structure_def Let_def)
  have run: "helium_run_analysis e input_file output_dir config f =
             (Inr \<lparr>success = False, errors = ?errs, artifacts = [], summary = None\<rparr>, f)"
    using assms(1) v
    by (simp add: helium_run_analysis_def helium_try_def finish_def init_results_def Let_def)
  have only: "nrows df = 6 \<and> ''Metric'' \<in> set (columns df) \<longrightarrow> ?errs = [?msg]"
    using assms(2) by (simp add: helium_shape_errors_def)
  from v mem run only show ?thesis by blast
qed

theorem helium_few_date_columns_rejected_witness:
  "read_csv demo_env ''helium_short.csv'' = Inr helium_short_frame
   \<and> length (date_columns helium_short_frame) = 2
   \<and> helium_run_analysis demo_env ''helium_short.csv'' ''out'' None empty_fs =
       (Inr \<lparr>success = False,
             errors = [''File must have at least 3 date columns in format 'YYYY-MM-DD', but found 2.''],
             artifacts = [], summary = None\<rparr>, empty_fs)"
proof -
  have h1: "read_csv demo_env ''helium_short.csv'' = Inr helium_short_frame"
    by (simp add: demo_env_def demo_files_def)
  have n: "length (date_columns helium_short_frame) = 2"
    by code_simp
  then have h2: "length (date_columns helium_short_frame) < 3" by simp
  have six: "nrows helium_short_frame = 6 \<and> ''Metric'' \<in> set (columns helium_short_frame)"
    by code_simp
  have two: "show_nat 2 = ''2''" by code_simp
  from helium_few_date_columns_rejected [OF h1 h2, of "''out''" None empty_fs] six n two
  have "helium_run_analysis demo_env ''helium_short.csv'' ''out'' None empty_fs =
       (Inr \<lparr>success = False,
             errors = [''File must have at least 3 date columns in format 'YYYY-MM-DD', but found 2.''],
             artifacts = [], summary = None\<rparr>, empty_fs)"
    by auto
  with h1 n show ?thesis by blast
qed

subsection \<open>Columns without data\<close>

lemma helium_clean_filter:
  "helium_clean df =
     filter (\<lambda>nc. fst nc \<notin> set dropping_cols \<and> any_nonzero (snd nc) \<and> \<not> all_na (snd nc)) df"
  by (simp add: helium_clean_def conj_commute conj_left_commute)

lemma melt_labels:
  "(\<lambda>r. fst (snd r)) ` set (melt metric value_cols) \<subseteq> fst ` set value_cols"
  by (force simp: melt_def)


text \<open>
  Claim C10. For the time-series pipeline, a column all of whose values are 0, or all of
  whose values are missing, is dropped before melting and pivoting: it is not a column of
  the cleaned frame, no melted row carries its label, and the reshaping (the pivot, the
  date range computed from it and the monthly aggregation) gives what it gives on the frame
  without that column. This holds for date columns in particular.
\<close>

theorem helium_zero_columns_dropped:
  assumes "\<forall>col. (c, col) \<in> set df \<longrightarrow> \<not> any_nonzero col \<or> all_na col"
  shows "c \<notin> set (columns (helium_clean df))
       \<and> (\<forall>metric. c \<notin> (\<lambda>r. fst (snd r)) `
             set (melt metric (filter (\<lambda>nc. fst nc \<noteq> ''Metric'') (helium_clean df))))
       \<and> helium_clean df = helium_clean (filter (\<lambda>nc. fst nc \<noteq> c) df)
       \<and> helium_reshape e df = helium_reshape e (filter (\<lambda>nc. fst nc \<noteq> c) df)"
proof -
  have absent: "c \<notin> set (columns (helium_clean df))"
    using assms by (auto simp: helium_clean_filter columns_def)
  have labels: "c \<notin> (\<lambda>r. fst (snd r)) `
             set (melt metric (filter (\<lambda>nc. fst nc \<noteq> ''Metric'') (helium_clean df)))" for metric
  proof
    assume "c \<in> (\<lambda>r. fst (snd r)) `
             set (melt metric (filter (\<lambda>nc. fst nc \<noteq> ''Metric'') (helium_clean df)))"
    with melt_labels have "c \<in> fst ` set (filter (\<lambda>nc. fst nc \<noteq> ''Metric'') (helium_clean df))"
      by blast
    then have "c \<in> set (columns (helium_clean df))" by (auto simp: columns_def)
    with absent show False by simp
  qed
  have same: "helium_clean df = helium_clean (filter (\<lambda>nc. fst nc \<noteq> c) df)"
    unfolding helium_clean_filter filter_filter
    by (rule filter_cong) (use assms in auto)
  have reshape: "helium_reshape e df = helium_reshape e (filter (\<lambda>nc. fst nc \<noteq> c) df)"
    unfolding helium_reshape_def same [symmetric] ..
  from absent labels same reshape show ?thesis by blast
qed


theorem helium_zero_columns_dropped_witness:
  "map_of helium_frame ''2024-04-02'' = Some (I64 [0, 0, 0, 0, 0, 0])
   \<and> ''2024-04-02'' \<notin> set (columns (helium_clean helium_frame))
   \<and> helium_reshape demo_env helium_frame =
       helium_reshape demo_env (filter (\<lambda>nc. fst nc \<noteq> ''2024-04-02'') helium_frame)
   \<and> (\<exists>mt. helium_reshape demo_env helium_frame = Inr mt \<and> m_end mt = (2024, 3, 2, 0))"
proof -
  have h: "\<forall>col. (''2024-04-02'', col) \<in> set helium_frame \<longrightarrow> \<not> any_nonzero col \<or> all_na col"
    by (auto simp: helium_frame_def any_nonzero_def)
  have look: "map_of helium_frame ''2024-04-02'' = Some (I64 [0, 0, 0, 0, 0, 0])"
    by (simp add: helium_frame_def)
  have ev: "helium_reshape demo_env helium_frame =
      Inr \<lparr>m_columns =
        [''Organic Keywords'', ''Organic Traffic'',
         ''Organic Traffic Cost'', ''Paid Keywords'', ''Paid Traffic'',
         ''Paid Traffic Cost''],
        m_int = [True, True, True, True, True, True],
        m_rows =
          [((2024, 1, 31, 0),
            [CInt 22, CInt 11, CInt 33, CInt 55, CInt 44, CInt 66]),
           ((2024, 2, 29, 0),
            [CInt 0, CInt 0, CInt 0, CInt 0, CInt 0, CInt 0]),
           ((2024, 3, 31, 0),
            [CInt 200, CInt 100, CInt 300, CInt 500, CInt 400, CInt 600])],
        m_start = (2023, 3, 2, 0), m_end = (2024, 3, 2, 0)\<rparr>"
    by code_simp
  from helium_zero_columns_dropped [OF h, of demo_env] have
    absent: "''2024-04-02'' \<notin> set (columns (helium_clean helium_frame))" and
    same: "helium_reshape demo_env helium_frame =
       helium_reshape demo_env (filter (\<lambda>nc. fst nc \<noteq> ''2024-04-02'') helium_frame)"
    by blast+
  from ev have "\<exists>mt. helium_reshape demo_env helium_frame = Inr mt \<and> m_end mt = (2024, 3, 2, 0)"
    by simp
  with look absent same show ?thesis by blast
qed

section \<open>Properties of keywords.py\<close>

subsection \<open>Reconciling duplicates\<close>








lemma keyword_rows_reconciled:
  "keywords_reconciled_df demo_env keyword_frame keyword_cols =
     Inr (reconcile demo_env keyword_rows)"
  by code_simp



subsection \<open>Exploding the intents\<close>

lemma kw_astype_filter:
  "kw_astype xs = Inr ys \<Longrightarrow>
   kw_astype (filter (\<lambda>ri. P (snd ri)) xs) = Inr (filter (\<lambda>row. P (intent row)) ys)"
proof (induction xs arbitrary: ys)
  case Nil
  then show ?case by simp
next
  case (Cons a xs)
  obtain r i where a: "a = (r, i)" by (cases a)
  from Cons.prems a obtain t v rest where
    t: "num_to_int64 (r_traffic r) = Inr t" and v: "num_to_int64 (r_volume r) = Inr v" and
    rest: "kw_astype xs = Inr rest" and
    ys: "ys = \<lparr>keyword = r_keyword r, year_month = r_month r, traffic = t,
               search_volume = v, intent = i\<rparr> # rest"
    by (auto simp: bind_exn_def split: sum.splits)
  from Cons.IH [OF rest] a t v ys show ?case
    by (simp add: bind_exn_def)
qed

lemma kw_astype_rel:
  "kw_astype xs = Inr ys \<Longrightarrow>
   list_all2 (\<lambda>ri row. keyword row = r_keyword (fst ri) \<and> year_month row = r_month (fst ri)
                \<and> num_to_int64 (r_traffic (fst ri)) = Inr (traffic row)
                \<and> num_to_int64 (r_volume (fst ri)) = Inr (search_volume row)
                \<and> intent row = snd ri) xs ys"
proof (induction xs arbitrary: ys)
  case Nil
  then show ?case by simp
next
  case (Cons a xs)
  obtain r i where a: "a = (r, i)" by (cases a)
  from Cons.prems a obtain t v rest where
    t: "num_to_int64 (r_traffic r) = Inr t" and v: "num_to_int64 (r_volume r) = Inr v" and
    rest: "kw_astype xs = Inr rest" and
    ys: "ys = \<lparr>keyword = r_keyword r, year_month = r_month r, traffic = t,
               search_volume = v, intent = i\<rparr> # rest"
    by (auto simp: bind_exn_def split: sum.splits)
  from Cons.IH [OF rest] a t v ys show ?case by simp
qed

lemma explode_row_subset:
  assumes "set valid' \<subseteq> set valid"
  shows "explode_row valid' r = filter (\<lambda>ri. PStr (snd ri) \<in> set valid') (explode_row valid r)"
proof -
  have "filter (\<lambda>i. PStr i \<in> set valid') xs =
        filter (\<lambda>i. PStr i \<in> set valid') (filter (\<lambda>i. PStr i \<in> set valid) xs)" for xs
    using assms by (auto intro!: filter_cong)
  then show ?thesis
    by (simp add: explode_row_def filter_map comp_def)
qed

lemma explode_rows_subset:
  assumes "set valid' \<subseteq> set valid"
  shows "concat (map (explode_row valid') R) =
         filter (\<lambda>ri. PStr (snd ri) \<in> set valid') (concat (map (explode_row valid) R))"
  by (induction R) (simp_all add: explode_row_subset [OF assms])

lemma explode_rows_valid:
  "ri \<in> set (concat (map (explode_row valid) R)) \<Longrightarrow> PStr (snd ri) \<in> set valid"
  by (auto simp: explode_row_def)


lemma intents_of_example:
  "intents_of ''Commercial, informational'' = [''commercial'', ''informational'']"
  by code_simp

lemma keyword_frame_clean:
  "keywords_clean_df demo_env keyword_frame keyword_cols keyword_intents = Inr keyword_clean"
  by code_simp

text \<open>
  Claim C5. Whenever \<^verbatim>\<open>clean_df\<close> of the keyword pipeline returns, its rows are, in order, the
  reconciled rows exploded by intent: the \<^verbatim>\<open>Keyword Intents\<close> cell of each reconciled row is
  split at the commas, every part is trimmed and lower-cased, and each part that belongs to
  the valid intents gives one output row with the keyword, month, traffic and search volume
  of the reconciled row, cast to \<^verbatim>\<open>int64\<close>. Every output row has a valid intent. The other
  parts are dropped without an error: with a smaller set of valid intents \<^verbatim>\<open>clean_df\<close> still
  returns, and returns just the rows whose intent is in the smaller set.
\<close>

theorem intents_exploded_and_filtered:
  assumes "keywords_clean_df e df required_cols valid_intents = Inr final"
  shows "\<exists>reconciled_df.
           keywords_reconciled_df e df required_cols = Inr reconciled_df
         \<and> list_all2
             (\<lambda>ri row. keyword row = r_keyword (fst ri) \<and> year_month row = r_month (fst ri)
                \<and> num_to_int64 (r_traffic (fst ri)) = Inr (traffic row)
                \<and> num_to_int64 (r_volume (fst ri)) = Inr (search_volume row)
                \<and> intent row = snd ri)
             (concat (map (\<lambda>r. map (\<lambda>i. (r, i))
                        (filter (\<lambda>i. PStr i \<in> set valid_intents)
                           (map (\<lambda>p. py_lower (py_strip p))
                              (py_split CHR '','' (case r_intents r of None \<Rightarrow> [] | Some s \<Rightarrow> s)))))
                      reconciled_df))
             final
         \<and> (\<forall>row\<in>set final. PStr (intent row) \<in> set valid_intents)
         \<and> (\<forall>valid'. set valid' \<subseteq> set valid_intents \<longrightarrow>
               keywords_clean_df e df required_cols valid' =
                 Inr (filter (\<lambda>row. PStr (intent row) \<in> set valid') final))"
proof -
  from assms obtain R where
    R: "keywords_reconciled_df e df required_cols = Inr R" and
    cast: "kw_astype (concat (map (explode_row valid_intents) R)) = Inr final"
    by (auto simp: keywords_clean_df_def bind_exn_def split: sum.splits)
  let ?rel = "\<lambda>ri row. keyword row = r_keyword (fst ri) \<and> year_month row = r_month (fst ri)
                \<and> num_to_int64 (r_traffic (fst ri)) = Inr (traffic row)
                \<and> num_to_int64 (r_volume (fst ri)) = Inr (search_volume row)
                \<and> intent row = snd ri"
  have rel: "list_all2 ?rel (concat (map (explode_row valid_intents) R)) final"
    by (rule kw_astype_rel [OF cast])
  have expl: "map (explode_row valid_intents) R =
      map (\<lambda>r. map (\<lambda>i. (r, i))
                        (filter (\<lambda>i. PStr i \<in> set valid_intents)
                           (map (\<lambda>p. py_lower (py_strip p))
                              (py_split CHR '','' (case r_intents r of None \<Rightarrow> [] | Some s \<Rightarrow> s))))) R"
    by (simp add: explode_row_def intents_of_def)
  have "map intent final = map snd (concat (map (explode_row valid_intents) R))"
    using rel by (induction rule: list_all2_induct) simp_all
  then have "intent ` set final = snd ` set (concat (map (explode_row valid_intents) R))"
    by (metis set_map)
  then have img: "intent ` set final \<subseteq> snd ` set (concat (map (explode_row valid_intents) R))"
    by simp
  have valid: "PStr (intent row) \<in> set valid_intents" if "row \<in> set final" for row
  proof -
    from that img obtain ri where "ri \<in> set (concat (map (explode_row valid_intents) R))"
      and "intent row = snd ri"
      by (metis (no_types, lifting) image_iff subsetD)
    then show ?thesis
      using explode_rows_valid [of ri valid_intents R] by simp
  qed
  have sub: "keywords_clean_df e df required_cols valid' =
                 Inr (filter (\<lambda>row. PStr (intent row) \<in> set valid') final)"
    if "set valid' \<subseteq> set valid_intents" for valid'
    using R kw_astype_filter [OF cast, of "\<lambda>i. PStr i \<in> set valid'"]
    by (simp add: keywords_clean_df_def bind_exn_def explode_rows_subset [OF that])
  from R rel valid sub show ?thesis
    unfolding expl by blast
qed

theorem intents_exploded_and_filtered_witness:
  "keywords_clean_df demo_env keyword_frame keyword_cols keyword_intents = Inr keyword_clean
   \<and> keywords_clean_df demo_env keyword_frame keyword_cols [PStr ''commercial''] =
       Inr [keyword_clean ! 0, keyword_clean ! 4]
   \<and> list_all (\<lambda>row. PStr (intent row) \<in> set keyword_intents) keyword_clean"
proof -
  have run: "keywords_clean_df demo_env keyword_frame keyword_cols keyword_intents =
               Inr keyword_clean"
    by code_simp
  have sub: "set [PStr ''commercial''] \<subseteq> set keyword_intents"
    by (simp add: keyword_intents_def)
  have sel: "filter (\<lambda>row. PStr (intent row) \<in> set [PStr ''commercial'']) keyword_clean =
               [keyword_clean ! 0, keyword_clean ! 4]"
    by (simp add: keyword_clean_def)
  from intents_exploded_and_filtered [OF run]
  have valid: "\<forall>row\<in>set keyword_clean. PStr (intent row) \<in> set keyword_intents"
    and less: "\<And>valid'. set valid' \<subseteq> set keyword_intents \<Longrightarrow>
                 keywords_clean_df demo_env keyword_frame keyword_cols valid' =
                   Inr (filter (\<lambda>row. PStr (intent row) \<in> set valid') keyword_clean)"
    by blast+
  from less [OF sub] sel valid run show ?thesis
    by (simp add: list_all_iff)
qed


subsection \<open>The reporting window\<close>

lemma map_of_assoc_set: "map_of (assoc_set kvs k v) k = Some v"
  by (induction kvs) auto

lemma keywords_steps_success:
  assumes "finish (run_steps
            [save_chart e output_dir n1 t1,
             save_chart e output_dir n2 t2,
             save_chart e output_dir n3 t3,
             keywords_summary_step w filtered_df,
             save_table e output_dir n4 c,
             set_success] st) = (r, f')"
      and "success r"
      and "\<not> success (res st)"
  shows "summary r = Some (keywords_summary_of w filtered_df)
       \<and> map_of (files f') (path_join output_dir n4) = Some c"
  using assms
  by (auto simp: finish_def save_chart_def keywords_summary_step_def save_table_def
        set_success_def add_artifact_def write_file_def map_of_assoc_set Let_def
      split: sum.splits option.splits)

lemma keywords_try_success:
  assumes "finish (keywords_try e input_file output_dir config rq vi bk st) = (r, f')"
      and "success r"
      and "\<not> success (res st)"
  shows "\<exists>df errs rows pat clean_data w.
           read_csv e input_file = Inr df
         \<and> keywords_validate_df_structure e df rq = Inr (True, errs)
         \<and> keywords_clean_df e df rq vi = Inr rows
         \<and> brand_pattern_of bk = Inr pat
         \<and> add_category e pat rows = Inr clean_data
         \<and> window_of e config clean_data = Inr w
         \<and> summary r = Some (keywords_summary_of w (filter_window w clean_data))
         \<and> map_of (files f') (path_join output_dir ''keyword_analysis.csv'') =
             Some (keywords_table (filter_window w clean_data))"
proof -
  from assms obtain df where df: "read_csv e input_file = Inr df"
    by (cases "read_csv e input_file") (auto simp: keywords_try_def finish_def)
  from assms df obtain ok errs where v: "keywords_validate_df_structure e df rq = Inr (ok, errs)"
    by (cases "keywords_validate_df_structure e df rq") (auto simp: keywords_try_def finish_def)
  from assms df v have ok: "ok"
    by (cases ok) (auto simp: keywords_try_def finish_def)
  let ?clean = "bind_exn (keywords_clean_df e df rq vi) (\<lambda>rows.
           bind_exn (brand_pattern_of bk) (\<lambda>brand_pattern.
             add_category e brand_pattern rows))"
  from assms df v ok obtain clean_data where cd: "?clean = Inr clean_data"
    by (cases ?clean) (auto simp: keywords_try_def finish_def)
  then obtain rows pat where rows: "keywords_clean_df e df rq vi = Inr rows"
    and pat: "brand_pattern_of bk = Inr pat" and cat: "add_category e pat rows = Inr clean_data"
    by (auto simp: bind_exn_def split: sum.splits)
  from assms df v ok cd obtain st1 where mk: "makedirs e output_dir st = Inr st1"
    by (cases "makedirs e output_dir st") (auto simp: keywords_try_def finish_def)
  then have st1: "\<not> success (res st1)"
    using assms(3) by (auto simp: makedirs_def split: option.splits)
  from assms df v ok cd mk st1 obtain w where w: "window_of e config clean_data = Inr w"
    by (cases "window_of e config clean_data") (auto simp: keywords_try_def finish_def)
  from assms(1) df v ok cd mk w have
    "finish (run_steps
             [save_chart e output_dir ''traffic_by_category.png''
                ''Branded vs Non-branded Traffic over time'',
              save_chart e output_dir ''branded_split.png'' ''Branded vs Non-Branded Traffic'',
              save_chart e output_dir ''intent_distribution.png'' ''Traffic by Intent'',
              keywords_summary_step w (filter_window w clean_data),
              save_table e output_dir ''keyword_analysis.csv''
                (keywords_table (filter_window w clean_data)),
              set_success] st1) = (r, f')"
    by (simp add: keywords_try_def Let_def)
  from keywords_steps_success [OF this assms(2) st1] df v ok rows pat cat w
  show ?thesis by simp
qed


lemma keyword_frame_data:
  "add_category demo_env ''flavour blaster|flavourblaster'' keyword_clean = Inr keyword_data"
  by code_simp

text \<open>
  Claim C6. When \<^verbatim>\<open>config.get('date_range')\<close> is missing (or falsy), the keyword pipeline
  keeps exactly the rows of the cleaned data whose \<^verbatim>\<open>YearMonth\<close> lies between the greatest
  month of the data minus 5 and that greatest month, both included: six calendar months.
  This is what the window computation gives on any cleaned data, and in every successful
  \<^verbatim>\<open>run_analysis\<close> the processed CSV holds these rows of the cleaned and classified data and
  the summary names the two bounds as its date range.
\<close>

theorem default_window_last_six_months:
  assumes "\<not> py_truthy (cfg_get config ''date_range'' PNone)"
  shows "(\<exists>w. window_of e config clean_data = Inr w
           \<and> filter_window w clean_data =
               filter (\<lambda>row. Max (year_month ` set clean_data) - 5 \<le> year_month row
                           \<and> year_month row \<le> Max (year_month ` set clean_data)) clean_data
           \<and> (clean_data \<noteq> [] \<longrightarrow>
                 w_start w = FromData (Some (Max (year_month ` set clean_data) - 5))
               \<and> w_end w = FromData (Some (Max (year_month ` set clean_data)))))
       \<and> (\<forall>r f'. keywords_run_analysis e input_file output_dir config f = (Inr r, f') \<and> success r
             \<longrightarrow> (\<exists>data s.
                    map_of (files f') (path_join output_dir ''keyword_analysis.csv'') =
                      Some (keywords_table
                        (filter (\<lambda>row. Max (year_month ` set data) - 5 \<le> year_month row
                                    \<and> year_month row \<le> Max (year_month ` set data)) data))
                  \<and> summary r = Some s
                  \<and> (data \<noteq> [] \<longrightarrow>
                        range_start s = FromData (Some (Max (year_month ` set data) - 5))
                      \<and> range_end s = FromData (Some (Max (year_month ` set data))))
                  \<and> (\<exists>rq vi df rows pat.
                        py_set (cfg_get config ''required_columns'' default_keyword_columns) = Inr rq
                      \<and> py_set (cfg_get config ''valid_intents'' default_valid_intents) = Inr vi
                      \<and> read_csv e input_file = Inr df
                      \<and> keywords_clean_df e df (set_iter (set_hash e) rq) (set_iter (set_hash e) vi)
                          = Inr rows
                      \<and> brand_pattern_of (cfg_get config ''brand_keywords'' default_brand_keywords)
                          = Inr pat
                      \<and> add_category e pat rows = Inr data)))"
proof -
  have window: "\<exists>w. window_of e config d = Inr w
           \<and> filter_window w d =
               filter (\<lambda>row. Max (year_month ` set d) - 5 \<le> year_month row
                           \<and> year_month row \<le> Max (year_month ` set d)) d
           \<and> (d \<noteq> [] \<longrightarrow>
                 w_start w = FromData (Some (Max (year_month ` set d) - 5))
               \<and> w_end w = FromData (Some (Max (year_month ` set d))))" for d :: "kw_cat list"
    using assms
    by (cases d) (simp_all add: window_of_def Let_def max_month_def filter_window_def in_window_def)
  have run: "\<exists>data s.
                    map_of (files f') (path_join output_dir ''keyword_analysis.csv'') =
                      Some (keywords_table
                        (filter (\<lambda>row. Max (year_month ` set data) - 5 \<le> year_month row
                                    \<and> year_month row \<le> Max (year_month ` set data)) data))
                  \<and> summary r = Some s
                  \<and> (data \<noteq> [] \<longrightarrow>
                        range_start s = FromData (Some (Max (year_month ` set data) - 5))
                      \<and> range_end s = FromData (Some (Max (year_month ` set data))))
                  \<and> (\<exists>rq vi df rows pat.
                        py_set (cfg_get config ''required_columns'' default_keyword_columns) = Inr rq
                      \<and> py_set (cfg_get config ''valid_intents'' default_valid_intents) = Inr vi
                      \<and> read_csv e input_file = Inr df
                      \<and> keywords_clean_df e df (set_iter (set_hash e) rq) (set_iter (set_hash e) vi)
                          = Inr rows
                      \<and> brand_pattern_of (cfg_get config ''brand_keywords'' default_brand_keywords)
                          = Inr pat
                      \<and> add_category e pat rows = Inr data)"
    if run: "keywords_run_analysis e input_file output_dir config f = (Inr r, f')"
      and ok: "success r" for r f'
  proof -
    from run obtain rq where rq:
      "py_set (cfg_get config ''required_columns'' default_keyword_columns) = Inr rq"
      by (cases "py_set (cfg_get config ''required_columns'' default_keyword_columns)")
         (auto simp: keywords_run_analysis_def)
    from run rq obtain vi where vi:
      "py_set (cfg_get config ''valid_intents'' default_valid_intents) = Inr vi"
      by (cases "py_set (cfg_get config ''valid_intents'' default_valid_intents)")
         (auto simp: keywords_run_analysis_def)
    let ?st = "\<lparr>res = (init_results :: keywords_summary results), fsys = f\<rparr>"
    from run rq vi have fin:
      "finish (keywords_try e input_file output_dir config (set_iter (set_hash e) rq)
                 (set_iter (set_hash e) vi)
                 (cfg_get config ''brand_keywords'' default_brand_keywords) ?st) = (r, f')"
      by (simp add: keywords_run_analysis_def Let_def prod_eq_iff)
    have init: "\<not> success (res ?st)" by (simp add: init_results_def)
    from keywords_try_success [OF fin ok init] obtain df errs rows pat data w where
      df: "read_csv e input_file = Inr df" and
      rows: "keywords_clean_df e df (set_iter (set_hash e) rq) (set_iter (set_hash e) vi) = Inr rows"
      and pat: "brand_pattern_of (cfg_get config ''brand_keywords'' default_brand_keywords) = Inr pat"
      and data: "add_category e pat rows = Inr data"
      and w: "window_of e config data = Inr w"
      and s: "summary r = Some (keywords_summary_of w (filter_window w data))"
      and csv: "map_of (files f') (path_join output_dir ''keyword_analysis.csv'') =
             Some (keywords_table (filter_window w data))"
      by blast
    from window [of data] w have
      fw: "filter_window w data =
               filter (\<lambda>row. Max (year_month ` set data) - 5 \<le> year_month row
                           \<and> year_month row \<le> Max (year_month ` set data)) data"
      and bounds: "data \<noteq> [] \<longrightarrow>
                 w_start w = FromData (Some (Max (year_month ` set data) - 5))
               \<and> w_end w = FromData (Some (Max (year_month ` set data)))"
      by auto
    let ?s = "keywords_summary_of w (filter_window w data)"
    from bounds have rng: "data \<noteq> [] \<longrightarrow>
        range_start ?s = FromData (Some (Max (year_month ` set data) - 5))
      \<and> range_end ?s = FromData (Some (Max (year_month ` set data)))"
      by (simp add: keywords_summary_of_def)
    from csv have csv': "map_of (files f') (path_join output_dir ''keyword_analysis.csv'') =
                      Some (keywords_table
                        (filter (\<lambda>row. Max (year_month ` set data) - 5 \<le> year_month row
                                    \<and> year_month row \<le> Max (year_month ` set data)) data))"
      unfolding fw .
    have src: "\<exists>rq vi df rows pat.
                        py_set (cfg_get config ''required_columns'' default_keyword_columns) = Inr rq
                      \<and> py_set (cfg_get config ''valid_intents'' default_valid_intents) = Inr vi
                      \<and> read_csv e input_file = Inr df
                      \<and> keywords_clean_df e df (set_iter (set_hash e) rq) (set_iter (set_hash e) vi)
                          = Inr rows
                      \<and> brand_pattern_of (cfg_get config ''brand_keywords'' default_brand_keywords)
                          = Inr pat
                      \<and> add_category e pat rows = Inr data"
      by (intro exI conjI) (rule rq vi df rows pat data)+
    show ?thesis
    proof (intro exI [of _ data] exI [of _ ?s] conjI)
      show "map_of (files f') (path_join output_dir ''keyword_analysis.csv'') =
                      Some (keywords_table
                        (filter (\<lambda>row. Max (year_month ` set data) - 5 \<le> year_month row
                                    \<and> year_month row \<le> Max (year_month ` set data)) data))"
        by (rule csv')
      show "summary r = Some ?s" by (rule s)
      show "data \<noteq> [] \<longrightarrow>
        range_start ?s = FromData (Some (Max (year_month ` set data) - 5))
      \<and> range_end ?s = FromData (Some (Max (year_month ` set data)))" by (rule rng)
      show "\<exists>rq vi df rows pat.
                        py_set (cfg_get config ''required_columns'' default_keyword_columns) = Inr rq
                      \<and> py_set (cfg_get config ''valid_intents'' default_valid_intents) = Inr vi
                      \<and> read_csv e input_file = Inr df
                      \<and> keywords_clean_df e df (set_iter (set_hash e) rq) (set_iter (set_hash e) vi)
                          = Inr rows
                      \<and> brand_pattern_of (cfg_get config ''brand_keywords'' default_brand_keywords)
                          = Inr pat
                      \<and> add_category e pat rows = Inr data" by (rule src)
    qed
  qed
  show ?thesis
  proof (intro conjI allI impI)
    show "\<exists>w. window_of e config clean_data = Inr w
           \<and> filter_window w clean_data =
               filter (\<lambda>row. Max (year_month ` set clean_data) - 5 \<le> year_month row
                           \<and> year_month row \<le> Max (year_month ` set clean_data)) clean_data
           \<and> (clean_data \<noteq> [] \<longrightarrow>
                 w_start w = FromData (Some (Max (year_month ` set clean_data) - 5))
               \<and> w_end w = FromData (Some (Max (year_month ` set clean_data))))"
      by (rule window)
  next
    fix r f'
    assume "keywords_run_analysis e input_file output_dir config f = (Inr r, f') \<and> success r"
    then have a: "keywords_run_analysis e input_file output_dir config f = (Inr r, f')"
      and b: "success r" by simp_all
    show "\<exists>data s.
                    map_of (files f') (path_join output_dir ''keyword_analysis.csv'') =
                      Some (keywords_table
                        (filter (\<lambda>row. Max (year_month ` set data) - 5 \<le> year_month row
                                    \<and> year_month row \<le> Max (year_month ` set data)) data))
                  \<and> summary r = Some s
                  \<and> (data \<noteq> [] \<longrightarrow>
                        range_start s = FromData (Some (Max (year_month ` set data) - 5))
                      \<and> range_end s = FromData (Some (Max (year_month ` set data))))
                  \<and> (\<exists>rq vi df rows pat.
                        py_set (cfg_get config ''required_columns'' default_keyword_columns) = Inr rq
                      \<and> py_set (cfg_get config ''valid_intents'' default_valid_intents) = Inr vi
                      \<and> read_csv e input_file = Inr df
                      \<and> keywords_clean_df e df (set_iter (set_hash e) rq) (set_iter (set_hash e) vi)
                          = Inr rows
                      \<and> brand_pattern_of (cfg_get config ''brand_keywords'' default_brand_keywords)
                          = Inr pat
                      \<and> add_category e pat rows = Inr data)"
      by (rule run [OF a b])
  qed
qed

theorem default_window_last_six_months_witness:
  "\<not> py_truthy (cfg_get None ''date_range'' PNone)
   \<and> (\<exists>w. window_of demo_env None keyword_data = Inr w
          \<and> filter_window w keyword_data = take 4 keyword_data
          \<and> w_start w = FromData (Some 24288) \<and> w_end w = FromData (Some 24293))
   \<and> (case keyword_run of
         (Inr r, f') \<Rightarrow>
            success r
          \<and> map_of (files f') (path_join ''out'' ''keyword_analysis.csv'') =
              Some (keywords_table (take 4 keyword_data))
       | _ \<Rightarrow> False)"
proof -
  have none: "\<not> py_truthy (cfg_get None ''date_range'' PNone)"
    by (simp add: cfg_get_def)
  have top: "Max (year_month ` set keyword_data) = 24293"
    by (simp add: keyword_data_def)
  have sel: "filter (\<lambda>row. 24293 - 5 \<le> year_month row \<and> year_month row \<le> 24293) keyword_data =
             take 4 keyword_data"
    by (simp add: keyword_data_def)
  have ne: "keyword_data \<noteq> []" by (simp add: keyword_data_def)
  from default_window_last_six_months [OF none, of demo_env keyword_data] ne
  have "\<exists>w. window_of demo_env None keyword_data = Inr w
          \<and> filter_window w keyword_data = take 4 keyword_data
          \<and> w_start w = FromData (Some 24288) \<and> w_end w = FromData (Some 24293)"
    unfolding top sel by simp
  moreover have "case keyword_run of
         (Inr r, f') \<Rightarrow>
            success r
          \<and> map_of (files f') (path_join ''out'' ''keyword_analysis.csv'') =
              Some (keywords_table (take 4 keyword_data))
       | _ \<Rightarrow> False"
    by code_simp
  ultimately show ?thesis using none by blast
qed

section \<open>Properties of every pipeline\<close>

subsection \<open>Failures are reported in the result\<close>




lemma finish_invalid:
  "errs \<noteq> [] \<Longrightarrow> finish (None, st\<lparr>res := (res st)\<lparr>errors := errs\<rparr>\<rparr>) = (r, f') \<Longrightarrow> errors r \<noteq> []"
  by (auto simp: finish_def)













end
